(* ===== verification/Prelude.thy ===== *)
theory Prelude
  imports Main "HOL-Library.Multiset"
begin

text \<open>
  Shared vocabulary of the development: the type of SQL integer keys, the
  collection of evaluation equations the witnesses use, and generic facts on
  lists of rows ordered by a strictly increasing key.  A table of the
  database is a list of rows in ascending primary-key order (SQLite's rowid
  order, the order in which a query without ORDER BY returns them); most
  lemmas here are about such lists and a key projection \<open>k\<close>.
\<close>

named_theorems db_simps "equations that evaluate handlers on a concrete database"

type_synonym key = int

abbreviation keys_ascending :: "('r \<Rightarrow> key) \<Rightarrow> 'r list \<Rightarrow> bool" where
  "keys_ascending k rows \<equiv> sorted_wrt (<) (map k rows)"

subsection \<open>Rows with ascending keys\<close>

lemma keys_ascending_distinct [intro]:
  "keys_ascending k rows \<Longrightarrow> distinct (map k rows)"
  by (simp add: strict_sorted_iff)

lemma keys_ascending_filter [intro]:
  "keys_ascending k rows \<Longrightarrow> keys_ascending k (filter P rows)"
proof -
  assume "keys_ascending k rows"
  then have "sorted_wrt (\<lambda>a b. k a < k b) rows" by (simp add: sorted_wrt_map)
  then have "sorted_wrt (\<lambda>a b. k a < k b) (filter P rows)" by (rule sorted_wrt_filter)
  then show ?thesis by (simp add: sorted_wrt_map)
qed

lemma keys_ascending_snoc [intro]:
  "keys_ascending k rows \<Longrightarrow> (\<forall>r \<in> set rows. k r < k x) \<Longrightarrow> keys_ascending k (rows @ [x])"
  by (simp add: sorted_wrt_append)

subsection \<open>Searching by key\<close>

lemma find_key_in_set:
  assumes "distinct (map k rows)" and "x \<in> set rows"
  shows "find (\<lambda>r. k r = k x) rows = Some x"
  using assms by (induction rows) auto

lemma find_SomeD [dest]:
  "find P rows = Some x \<Longrightarrow> x \<in> set rows \<and> P x"
  by (auto simp: find_Some_iff dest: nth_mem)

lemma find_append_absent [simp]:
  "\<not> P x \<Longrightarrow> find P (rows @ [x]) = find P rows"
  by (induction rows) auto

lemma find_least_key:
  assumes "keys_ascending k rows" and "x \<in> set rows" and "P x"
    and "\<forall>y \<in> set rows. P y \<longrightarrow> k x \<le> k y"
  shows "find P rows = Some x"
  using assms
proof (induction rows)
  case Nil
  then show ?case by simp
next
  case (Cons r rows)
  show ?case
  proof (cases "r = x")
    case True
    with Cons.prems(3) show ?thesis by simp
  next
    case False
    with Cons.prems(1,2,4) have "\<not> P r" by fastforce
    with False Cons show ?thesis by simp
  qed
qed

lemma find_eq_filter_head:
  "find P rows = (case filter P rows of [] \<Rightarrow> None | x # _ \<Rightarrow> Some x)"
  by (induction rows) auto

subsection \<open>Removing a row by key\<close>

lemma filter_key_neq_remove1:
  assumes "distinct (map k rows)" and "x \<in> set rows"
  shows "filter (\<lambda>r. k r \<noteq> k x) rows = remove1 x rows"
  using assms
proof (induction rows)
  case Nil
  then show ?case by simp
next
  case (Cons r rows)
  show ?case
  proof (cases "r = x")
    case True
    with Cons.prems have "\<forall>y \<in> set rows. k y \<noteq> k x" by (fastforce simp: image_iff)
    with True show ?thesis by (simp add: filter_id_conv)
  next
    case False
    with Cons.prems have "k r \<noteq> k x" and "x \<in> set rows" by (auto simp: image_iff)
    with False Cons show ?thesis by simp
  qed
qed

lemma mset_filter_key_neq:
  assumes "distinct (map k rows)" and "x \<in> set rows"
  shows "mset (filter (\<lambda>r. k r \<noteq> k x) rows) = mset rows - {#x#}"
  using assms by (simp only: filter_key_neq_remove1 mset_remove1)

lemma length_filter_key_neq:
  assumes "distinct (map k rows)" and "x \<in> set rows"
  shows "length (filter (\<lambda>r. k r \<noteq> k x) rows) = length rows - 1"
proof -
  have "length (filter (\<lambda>r. k r \<noteq> k x) rows) = size (mset rows - {#x#})"
    using assms by (simp only: mset_filter_key_neq [symmetric] size_mset)
  with assms(2) show ?thesis by (simp add: size_Diff_singleton)
qed

end
