(* ===== verification/Schema.thy ===== *)
theory Schema
  imports Prelude
begin

text \<open>
  The data model.  \<^verbatim>\<open>src/app.py\<close> declares four SQLAlchemy classes
  (lines 33--70) that the route handlers use; each becomes a record whose
  fields are the columns, a nullable column becoming an \<open>option\<close>.  Field
  names carry a table prefix where the source reuses a column name
  (\<open>id\<close>, \<open>name\<close>), because record fields share one name space.  The
  database is a record of four tables, each a list of rows in primary-key
  order.  The declared columns themselves (types, primary key, unique,
  nullable, foreign key) are also written out as data for both files that
  declare them, \<^verbatim>\<open>src/app.py\<close> and \<^verbatim>\<open>src/models.py\<close>, so that the
  two schemas can be compared.  \<open>wf_db\<close> is what the declared constraints
  guarantee of every database state: ascending unique primary keys and the
  UNIQUE columns.
\<close>

subsection \<open>Rows\<close>

record user =
  uid :: key
  username :: string
  email :: string
  password :: string
  firstname :: "string option"
  lastname :: "string option"
  subscription_date :: "int option"

record planet =
  pid :: key
  pname :: string
  climate :: "string option"
  terrain :: "string option"
  population :: "int option"

record character =
  cid :: key
  cname :: string
  species :: "string option"
  homeworld :: "string option"
  affiliation :: "string option"

record favorite =
  fid :: key
  user_id :: key
  planet_id :: "key option"
  character_id :: "key option"

record db =
  users :: "user list"
  planets :: "planet list"
  characters :: "character list"
  favorites :: "favorite list"

subsection \<open>Declared columns\<close>

datatype sql_type = SqlInteger | SqlString "nat option" | SqlDateTime

text \<open>\<open>Column name type primary_key unique nullable foreign_key\<close>; SQLAlchemy's
  default for \<open>nullable\<close> is \<open>not primary_key\<close>.\<close>

datatype column = Column string sql_type bool bool bool "string option"

fun column_name :: "column \<Rightarrow> string" where
  "column_name (Column n _ _ _ _ _) = n"

definition app_schema :: "(string \<times> column list) list" where
  "app_schema =
    [(''user'',
      [Column ''id'' SqlInteger True False False None,
       Column ''username'' (SqlString None) False True False None,
       Column ''email'' (SqlString None) False True False None,
       Column ''password'' (SqlString None) False False False None,
       Column ''firstname'' (SqlString None) False False True None,
       Column ''lastname'' (SqlString None) False False True None,
       Column ''subscription_date'' SqlDateTime False False True None]),
     (''planet'',
      [Column ''id'' SqlInteger True False False None,
       Column ''name'' (SqlString None) False True False None,
       Column ''climate'' (SqlString None) False False True None,
       Column ''terrain'' (SqlString None) False False True None,
       Column ''population'' SqlInteger False False True None]),
     (''character'',
      [Column ''id'' SqlInteger True False False None,
       Column ''name'' (SqlString None) False True False None,
       Column ''species'' (SqlString None) False False True None,
       Column ''homeworld'' (SqlString None) False False True None,
       Column ''affiliation'' (SqlString None) False False True None]),
     (''favorite'',
      [Column ''id'' SqlInteger True False False None,
       Column ''user_id'' SqlInteger False False False (Some ''user.id''),
       Column ''planet_id'' SqlInteger False False True (Some ''planet.id''),
       Column ''character_id'' SqlInteger False False True (Some ''character.id'')])]"

definition models_schema :: "(string \<times> column list) list" where
  "models_schema =
    [(''user'',
      [Column ''id'' SqlInteger True False False None,
       Column ''username'' (SqlString (Some 80)) False True False None,
       Column ''email'' (SqlString (Some 90)) False True False None,
       Column ''password'' (SqlString (Some 200)) False False False None,
       Column ''firstname'' (SqlString (Some 80)) False False True None,
       Column ''lastname'' (SqlString (Some 90)) False False True None]),
     (''planet'',
      [Column ''id'' SqlInteger True False False None,
       Column ''name'' (SqlString (Some 80)) False True False None,
       Column ''climate'' (SqlString (Some 80)) False False True None,
       Column ''terrain'' (SqlString (Some 80)) False False True None,
       Column ''population'' SqlInteger False False True None]),
     (''character'',
      [Column ''id'' SqlInteger True False False None,
       Column ''name'' (SqlString (Some 80)) False True False None,
       Column ''species'' (SqlString (Some 80)) False False True None,
       Column ''homeworld'' (SqlString (Some 80)) False False True None]),
     (''favorite'',
      [Column ''id'' SqlInteger True False False None,
       Column ''user_id'' SqlInteger False False False (Some ''user.id''),
       Column ''planet_id'' SqlInteger False False True (Some ''planet.id''),
       Column ''character_id'' SqlInteger False False True (Some ''character.id'')])]"

definition table_columns :: "(string \<times> column list) list \<Rightarrow> string \<Rightarrow> string list" where
  "table_columns schema t = (case map_of schema t of None \<Rightarrow> [] | Some cs \<Rightarrow> map column_name cs)"

subsection \<open>Constraints every state satisfies\<close>

text \<open>
  Integer primary keys are SQLite rowids: unique, and a table without ORDER BY
  is read in ascending rowid order, so each table list has ascending keys.
  \<open>unique=True\<close> columns are distinct.  NOT NULL columns are the
  non-\<open>option\<close> fields of the records.
\<close>

definition wf_catalogue :: "db \<Rightarrow> bool" where
  "wf_catalogue d \<longleftrightarrow>
     keys_ascending uid (users d) \<and> keys_ascending pid (planets d) \<and>
     keys_ascending cid (characters d) \<and>
     distinct (map username (users d)) \<and> distinct (map email (users d)) \<and>
     distinct (map pname (planets d)) \<and> distinct (map cname (characters d))"

definition wf_db :: "db \<Rightarrow> bool" where
  "wf_db d \<longleftrightarrow> wf_catalogue d \<and> keys_ascending fid (favorites d)"

lemma wf_catalogue_favorites_update [simp]:
  "wf_catalogue (d\<lparr>favorites := fs\<rparr>) = wf_catalogue d"
  by (simp add: wf_catalogue_def)

text \<open>The two schema declarations disagree.  The classes of
  src/models.py, whose create_all builds starwars_blog.db, declare no
  affiliation column on character and no subscription_date on user, while the
  classes of src/app.py, which the handlers query, declare both; the other
  columns of all four tables have the same names.\<close>

lemma models_schema_diverges:
  "table_columns app_schema ''character'' = table_columns models_schema ''character'' @ [''affiliation''] \<and>
   table_columns app_schema ''user'' = table_columns models_schema ''user'' @ [''subscription_date''] \<and>
   table_columns app_schema ''planet'' = table_columns models_schema ''planet'' \<and>
   table_columns app_schema ''favorite'' = table_columns models_schema ''favorite''"
  by (simp add: table_columns_def app_schema_def models_schema_def)

end
