(* ===== verification/Orm.thy ===== *)
theory Orm
  imports Schema
begin

text \<open>
  The query layer the handlers call: SQLAlchemy's \<open>Model.query.get\<close>,
  \<open>query.all\<close>, \<open>filter_by(...).first()\<close>, \<open>session.add\<close>/\<open>delete\<close> with
  \<open>commit\<close>, and the relationship attributes \<open>user.favorites\<close>,
  \<open>favorite.planet\<close>, \<open>favorite.character\<close>, on the default SQLite
  backend.  These are library behaviour, not code of the repository; they are
  written out here because each handler is a composition of them.
  \<^item> \<open>query_get\<close>: \<open>SELECT ... WHERE id = ?\<close>, the row with that key or
    \<open>None\<close>.
  \<^item> \<open>query_get_arg\<close>: \<open>get\<close> applied to \<open>request.args.get('user_id')\<close>,
    a string or \<open>None\<close>.  \<open>get(None)\<close> returns \<open>None\<close> (a fully NULL
    identity loads nothing); a string is compared with the INTEGER key under
    SQLite's numeric affinity, which \<open>sql_int\<close> models for an optional
    sign followed by decimal digits.  Any other text (letters, the empty
    string) matches no row.
  \<^item> \<open>next_rowid\<close>: SQLite gives an inserted row one more than the largest
    rowid of the table, or 1 in an empty table; the row therefore goes to the
    end of the table in rowid order (\<open>insert_row\<close>).
  \<^item> \<open>delete_row\<close>: \<open>DELETE ... WHERE id = ?\<close> for the loaded row.
  \<^item> \<open>py_str\<close>: Python's \<open>str\<close> of an int, the text a client puts in
    the query string; \<open>sql_int\<close> reads it back to the same key.
\<close>

subsection \<open>Lookups\<close>

definition query_get :: "('r \<Rightarrow> key) \<Rightarrow> 'r list \<Rightarrow> key \<Rightarrow> 'r option" where
  "query_get k rows i = find (\<lambda>r. k r = i) rows"

definition is_digit :: "char \<Rightarrow> bool" where
  "is_digit c \<longleftrightarrow> 48 \<le> (of_char c :: nat) \<and> (of_char c :: nat) \<le> 57"

fun dec_val :: "nat \<Rightarrow> string \<Rightarrow> nat option" where
  "dec_val acc [] = Some acc"
| "dec_val acc (c # cs) =
     (if is_digit c then dec_val (10 * acc + (of_char c - 48)) cs else None)"

definition sql_int :: "string \<Rightarrow> key option" where
  "sql_int s =
     (case s of
       [] \<Rightarrow> None
     | c # cs \<Rightarrow>
         if c = CHR ''-'' \<and> cs \<noteq> [] then map_option (\<lambda>n. - int n) (dec_val 0 cs)
         else if c = CHR ''+'' \<and> cs \<noteq> [] then map_option int (dec_val 0 cs)
         else map_option int (dec_val 0 s))"

definition query_get_arg :: "('r \<Rightarrow> key) \<Rightarrow> 'r list \<Rightarrow> string option \<Rightarrow> 'r option" where
  "query_get_arg k rows arg =
     (case arg of
       None \<Rightarrow> None
     | Some s \<Rightarrow> (case sql_int s of None \<Rightarrow> None | Some i \<Rightarrow> query_get k rows i))"

definition filter_by_first :: "('r \<Rightarrow> bool) \<Rightarrow> 'r list \<Rightarrow> 'r option" where
  "filter_by_first P rows = find P rows"

subsection \<open>Writes\<close>

definition next_rowid :: "('r \<Rightarrow> key) \<Rightarrow> 'r list \<Rightarrow> key" where
  "next_rowid k rows =
     (case rows of [] \<Rightarrow> 1 | r # rs \<Rightarrow> fold (\<lambda>x m. max (k x) m) rs (k r) + 1)"

definition insert_row :: "('r \<Rightarrow> key) \<Rightarrow> (key \<Rightarrow> 'r) \<Rightarrow> 'r list \<Rightarrow> 'r list" where
  "insert_row k mk rows = rows @ [mk (next_rowid k rows)]"

definition delete_row :: "('r \<Rightarrow> key) \<Rightarrow> 'r \<Rightarrow> 'r list \<Rightarrow> 'r list" where
  "delete_row k x rows = filter (\<lambda>r. k r \<noteq> k x) rows"

subsection \<open>Relationships\<close>

definition user_favorites :: "db \<Rightarrow> user \<Rightarrow> favorite list" where
  "user_favorites d u = filter (\<lambda>f. user_id f = uid u) (favorites d)"

definition favorite_planet :: "db \<Rightarrow> favorite \<Rightarrow> planet option" where
  "favorite_planet d f =
     (case planet_id f of None \<Rightarrow> None | Some p \<Rightarrow> query_get pid (planets d) p)"

definition favorite_character :: "db \<Rightarrow> favorite \<Rightarrow> character option" where
  "favorite_character d f =
     (case character_id f of None \<Rightarrow> None | Some c \<Rightarrow> query_get cid (characters d) c)"

subsection \<open>Decimal text of a key\<close>

text \<open>How a client writes a key into the query string: Python's \<open>str\<close> of an
  int, a minus sign for a negative value and decimal digits without leading
  zeros.\<close>

fun nat_digits :: "nat \<Rightarrow> string" where
  "nat_digits n = (if n < 10 then [char_of (48 + n)] else nat_digits (n div 10) @ [char_of (48 + n mod 10)])"

definition py_str :: "int \<Rightarrow> string" where
  "py_str i = (if i < 0 then CHR ''-'' # nat_digits (nat (- i)) else nat_digits (nat i))"

lemmas orm_defs = query_get_def query_get_arg_def filter_by_first_def
  insert_row_def delete_row_def user_favorites_def favorite_planet_def favorite_character_def

subsection \<open>Facts about lookups\<close>

lemma query_get_SomeD [dest]:
  "query_get k rows i = Some r \<Longrightarrow> r \<in> set rows \<and> k r = i"
  by (auto simp: query_get_def)

lemma query_get_None_iff:
  "query_get k rows i = None \<longleftrightarrow> i \<notin> k ` set rows"
  by (auto simp: query_get_def find_None_iff)

lemma query_get_in_set:
  "distinct (map k rows) \<Longrightarrow> r \<in> set rows \<Longrightarrow> query_get k rows (k r) = Some r"
  unfolding query_get_def by (rule find_key_in_set)

lemma query_get_member:
  "i \<in> set (map k rows) \<Longrightarrow> \<exists>r. query_get k rows i = Some r"
  using query_get_None_iff [of k rows i] by auto

lemma query_get_arg_SomeD [dest]:
  "query_get_arg k rows arg = Some r \<Longrightarrow> r \<in> set rows"
  by (auto simp: query_get_arg_def split: option.splits)

lemma query_get_arg_None [simp]: "query_get_arg k rows None = None"
  by (simp add: query_get_arg_def)

lemma filter_by_first_SomeD [dest]:
  "filter_by_first P rows = Some x \<Longrightarrow> x \<in> set rows \<and> P x"
  by (auto simp: filter_by_first_def)

lemma filter_by_first_None_iff:
  "filter_by_first P rows = None \<longleftrightarrow> (\<forall>x \<in> set rows. \<not> P x)"
  by (auto simp: filter_by_first_def find_None_iff)

subsection \<open>Facts about writes\<close>

lemma fold_max_ge:
  fixes k :: "'r \<Rightarrow> key"
  shows "m \<le> fold (\<lambda>x m. max (k x) m) rs m"
proof (induction rs arbitrary: m)
  case Nil
  then show ?case by simp
next
  case (Cons y rs)
  have "m \<le> max (k y) m" by simp
  also have "\<dots> \<le> fold (\<lambda>x m. max (k x) m) rs (max (k y) m)" by (rule Cons.IH)
  finally show ?case by simp
qed

lemma fold_max_member:
  fixes k :: "'r \<Rightarrow> key"
  shows "x \<in> set rs \<Longrightarrow> k x \<le> fold (\<lambda>x m. max (k x) m) rs m"
proof (induction rs arbitrary: m)
  case Nil
  then show ?case by simp
next
  case (Cons y rs)
  show ?case
  proof (cases "x = y")
    case True
    have "k y \<le> max (k y) m" by simp
    also have "\<dots> \<le> fold (\<lambda>x m. max (k x) m) rs (max (k y) m)" by (rule fold_max_ge)
    finally show ?thesis using True by simp
  next
    case False
    with Cons show ?thesis by simp
  qed
qed

lemma next_rowid_greater:
  assumes r: "r \<in> set rows"
  shows "k r < next_rowid k rows"
proof (cases rows)
  case Nil
  with r show ?thesis by simp
next
  case (Cons y rs)
  have "k r \<le> fold (\<lambda>x m. max (k x) m) rs (k y)"
  proof (cases "r = y")
    case True
    then show ?thesis by (simp add: fold_max_ge)
  next
    case False
    with r Cons show ?thesis by (simp add: fold_max_member)
  qed
  with Cons show ?thesis by (simp add: next_rowid_def)
qed

lemma next_rowid_fresh: "next_rowid k rows \<notin> k ` set rows"
  by (auto dest: next_rowid_greater [of _ _ k])

lemma insert_row_ascending [intro]:
  assumes "keys_ascending k rows" and "k (mk (next_rowid k rows)) = next_rowid k rows"
  shows "keys_ascending k (insert_row k mk rows)"
  unfolding insert_row_def
proof (rule keys_ascending_snoc)
  show "keys_ascending k rows" by (rule assms(1))
  show "\<forall>r \<in> set rows. k r < k (mk (next_rowid k rows))"
    using assms(2) by (simp add: next_rowid_greater)
qed

lemma delete_row_ascending [intro]:
  "keys_ascending k rows \<Longrightarrow> keys_ascending k (delete_row k x rows)"
  by (auto simp: delete_row_def)

lemma mset_delete_row:
  "distinct (map k rows) \<Longrightarrow> x \<in> set rows \<Longrightarrow> mset (delete_row k x rows) = mset rows - {#x#}"
  unfolding delete_row_def by (rule mset_filter_key_neq)

lemma length_delete_row:
  "distinct (map k rows) \<Longrightarrow> x \<in> set rows \<Longrightarrow> length (delete_row k x rows) = length rows - 1"
  unfolding delete_row_def by (rule length_filter_key_neq)

subsection \<open>How far the rowid allocator moves\<close>

text \<open>With positive keys, \<open>next_rowid\<close> rises by one on an insert and never
  rises on a delete (SQLite reuses the largest rowid once its row is gone).\<close>

lemma next_rowid_Max:
  "rows \<noteq> [] \<Longrightarrow> next_rowid k rows = Max (k ` set rows) + 1"
proof (cases rows)
  case (Cons y rs)
  have "fold (\<lambda>x m. max (k x) m) rs (k y) = fold max (map k rs) (k y)"
    by (simp add: fold_map comp_def)
  also have "\<dots> = Max (set (k y # map k rs))" by (rule Max.set_eq_fold [symmetric])
  finally show ?thesis using Cons by (simp add: next_rowid_def)
qed simp

lemma next_rowid_snoc:
  assumes "k x = next_rowid k rows"
  shows "next_rowid k (rows @ [x]) = next_rowid k rows + 1"
proof -
  have "Max (k ` set (rows @ [x])) = k x"
    using assms by (intro Max_eqI) (auto dest: next_rowid_greater [of _ _ k] intro: less_imp_le)
  then show ?thesis using assms by (simp add: next_rowid_Max)
qed

lemma next_rowid_positive:
  "\<forall>r \<in> set rows. 0 < k r \<Longrightarrow> 0 < next_rowid k rows"
proof (cases rows)
  case (Cons y rs)
  assume pos: "\<forall>r \<in> set rows. 0 < k r"
  with Cons have "0 < k y" by simp
  also have "k y < next_rowid k rows" using Cons by (simp add: next_rowid_greater)
  finally show ?thesis .
qed (simp add: next_rowid_def)

lemma next_rowid_filter:
  assumes "\<forall>r \<in> set rows. 0 < k r"
  shows "next_rowid k (filter P rows) \<le> next_rowid k rows"
proof (cases "filter P rows = []")
  case True
  with assms show ?thesis using next_rowid_positive [of rows k] by (simp add: next_rowid_def)
next
  case False
  then have "rows \<noteq> []" by auto
  have "Max (k ` set (filter P rows)) \<le> Max (k ` set rows)"
    using False by (intro Max_mono) (auto simp: filter_empty_conv)
  with False \<open>rows \<noteq> []\<close> show ?thesis by (simp add: next_rowid_Max)
qed

lemma delete_row_snoc_fresh:
  "k x = next_rowid k rows \<Longrightarrow> delete_row k x (rows @ [x]) = rows"
  by (auto simp: delete_row_def filter_id_conv dest: next_rowid_greater [of _ _ k])

lemma filter_by_first_snoc:
  "\<forall>f \<in> set rows. \<not> P f \<Longrightarrow> P x \<Longrightarrow> filter_by_first P (rows @ [x]) = Some x"
  unfolding filter_by_first_def by (induction rows) auto

subsection \<open>Reading back the decimal text of a key\<close>

declare nat_digits.simps [simp del]

lemma dec_val_append:
  "dec_val acc (xs @ ys) = (case dec_val acc xs of None \<Rightarrow> None | Some a \<Rightarrow> dec_val a ys)"
  by (induction acc xs rule: dec_val.induct) simp_all

lemma digit_char:
  assumes "k < 10"
  shows "is_digit (char_of (48 + k)) \<and> of_char (char_of (48 + k) :: char) - 48 = (k :: nat)"
proof -
  from assms have "of_char (char_of (48 + k) :: char) = (48 + k :: nat)" by (simp add: of_char_of)
  with assms show ?thesis by (simp add: is_digit_def)
qed

lemma dec_val_nat_digits:
  "dec_val acc (nat_digits n) = Some (acc * 10 ^ length (nat_digits n) + n)"
proof (induction n arbitrary: acc rule: nat_digits.induct)
  case (1 n)
  show ?case
  proof (cases "n < 10")
    case True
    with digit_char [of n] show ?thesis by (simp add: nat_digits.simps)
  next
    case False
    let ?q = "n div 10" and ?r = "n mod 10"
    have r: "?r < 10" by simp
    have "dec_val acc (nat_digits n) = dec_val (acc * 10 ^ length (nat_digits ?q) + ?q) [char_of (48 + ?r)]"
      using False 1 by (simp add: nat_digits.simps [of n] dec_val_append)
    also have "\<dots> = Some (10 * (acc * 10 ^ length (nat_digits ?q) + ?q) + ?r)"
      using digit_char [OF r] by simp
    also have "10 * (acc * 10 ^ length (nat_digits ?q) + ?q) + ?r = acc * 10 ^ length (nat_digits n) + n"
      using False by (simp add: nat_digits.simps [of n] algebra_simps)
    finally show ?thesis .
  qed
qed

lemma nat_digits_hd:
  "\<exists>k::nat < 10. \<exists>cs. nat_digits n = char_of (48 + k) # cs"
proof (induction n rule: nat_digits.induct)
  case (1 n)
  then show ?case by (cases "n < 10") (auto simp: nat_digits.simps [of n])
qed

lemma sql_int_py_str:
  "sql_int (py_str i) = Some i"
proof -
  obtain k :: nat and cs where k: "k < 10" and hd: "nat_digits (nat \<bar>i\<bar>) = char_of (48 + k) # cs"
    using nat_digits_hd by blast
  have "char_of (48 + k) \<noteq> CHR ''-'' \<and> char_of (48 + k) \<noteq> CHR ''+''"
  proof (intro conjI notI)
    from k have o: "of_char (char_of (48 + k) :: char) = (48 + k :: nat)" by (simp add: of_char_of)
    {
      fix c :: char
      assume "char_of (48 + k) = c"
      then have "(of_char c :: nat) = 48 + k" using o by simp
    }
    note code = this
    show False if "char_of (48 + k) = CHR ''-''" using code [OF that] by simp
    show False if "char_of (48 + k) = CHR ''+''" using code [OF that] by simp
  qed
  then show ?thesis
    using hd dec_val_nat_digits [of 0 "nat \<bar>i\<bar>"]
    by (cases "i < 0") (auto simp: py_str_def sql_int_def)
qed

text \<open>User.query.get applied to the decimal text of a key, as a client
  sends it in ?user_id=, finds exactly the row User.query.get finds for the
  key itself: reading the query string through SQLite's numeric affinity
  inverts Python's str.\<close>

lemma query_get_arg_py_str:
  "query_get_arg k rows (Some (py_str i)) = query_get k rows i"
  by (simp add: query_get_arg_def sql_int_py_str)

end
