(* ===== verification/Http.thy ===== *)
theory Http
  imports Prelude
begin

text \<open>
  What a Flask handler returns.  \<open>jsonify(v)\<close> is a response with status 200
  and the JSON value \<open>v\<close>; a handler that returns the pair
  \<open>(jsonify(v), 404)\<close> gives the same body with status 404.  JSON objects
  are association lists in the order the source writes their keys.  An
  exception that escapes a handler is a \<open>fault\<close>: Flask answers it with
  status 500, and nothing of the handler after the faulting statement has
  run.  \<open>AttributeError\<close> is Python's, raised by an attribute read on
  \<open>None\<close>; \<open>OperationalError\<close> is the database driver's, raised by a
  statement SQLite rejects; \<open>ImportError\<close>, \<open>ModuleNotFoundError\<close>
  and \<open>NameError\<close> are raised while a module is being executed.
  \<open>outcome\<close> is the result of a handler: a fault or a response.
\<close>

datatype json = JNull | JInt int | JStr string | JArr "json list" | JObj "(string \<times> json) list"

record response =
  status :: nat
  body :: json

datatype fault =
    AttributeError string
  | OperationalError string
  | ImportError string
  | ModuleNotFoundError string
  | NameError string

type_synonym outcome = "fault + response"

definition jsonify :: "json \<Rightarrow> response" where
  "jsonify v = \<lparr>status = 200, body = v\<rparr>"

definition with_status :: "response \<Rightarrow> nat \<Rightarrow> response" where
  "with_status r n = r\<lparr>status := n\<rparr>"

definition message :: "string \<Rightarrow> json" where
  "message s = JObj [(''message'', JStr s)]"

definition json_str_opt :: "string option \<Rightarrow> json" where
  "json_str_opt v = (case v of None \<Rightarrow> JNull | Some s \<Rightarrow> JStr s)"

definition json_int_opt :: "int option \<Rightarrow> json" where
  "json_int_opt v = (case v of None \<Rightarrow> JNull | Some n \<Rightarrow> JInt n)"

definition http_status :: "outcome \<Rightarrow> nat" where
  "http_status r = (case r of Inl _ \<Rightarrow> 500 | Inr resp \<Rightarrow> status resp)"

lemma jsonify_simps [simp, db_simps]:
  "status (jsonify v) = 200" "body (jsonify v) = v"
  "status (with_status r n) = n" "body (with_status r n) = body r"
  by (simp_all add: jsonify_def with_status_def)

lemma http_status_simps [simp]:
  "http_status (Inl e) = 500" "http_status (Inr r) = status r"
  by (simp_all add: http_status_def)

end
