(* ===== verification/Favorites.thy ===== *)
theory Favorites
  imports Orm Http
begin

text \<open>
  The favorites endpoints of \<^verbatim>\<open>src/app.py\<close>, lines 112--170, the only
  handlers that write.  \<open>get_user_favorites\<close> walks \<open>user.favorites\<close> and
  emits one object per non-empty relationship (\<open>fav_entries\<close> is its
  \<^verbatim>\<open>for\<close> loop).  \<open>add_favorite_planet\<close>/\<open>add_favorite_people\<close> look up
  the user and the target, answer 404 if either is missing, and otherwise
  insert a row with a fresh rowid.  \<open>delete_favorite_planet\<close>/
  \<open>delete_favorite_people\<close> read \<open>user.id\<close> before checking \<open>user\<close>,
  so an unknown or missing \<^verbatim>\<open>user_id\<close> raises \<^verbatim>\<open>AttributeError\<close>
  (a fault, HTTP 500); the later \<open>user is None\<close> test can then never be
  true.  Each writing handler returns its outcome and the database after the
  commit.

  The component invariant \<open>favorites_inv\<close> is what the handlers keep true of
  the favorites table: ascending rowids, exactly one of \<open>planet_id\<close> and
  \<open>character_id\<close> set on every row (spec section 3, never declared as a
  constraint), and every foreign key pointing at an existing row.
\<close>

subsection \<open>Handlers\<close>

fun fav_entries :: "db \<Rightarrow> favorite list \<Rightarrow> json list" where
  "fav_entries d [] = []"
| "fav_entries d (f # fs) =
     (case favorite_planet d f of None \<Rightarrow> [] | Some p \<Rightarrow> [JObj [(''planet'', JStr (pname p))]]) @
     (case favorite_character d f of None \<Rightarrow> [] | Some c \<Rightarrow> [JObj [(''character'', JStr (cname c))]]) @
     fav_entries d fs"

definition get_user_favorites :: "db \<Rightarrow> string option \<Rightarrow> response" where
  "get_user_favorites d user_arg =
     (case query_get_arg uid (users d) user_arg of
       None \<Rightarrow> with_status (jsonify (message ''User not found'')) 404
     | Some u \<Rightarrow> jsonify (JArr (fav_entries d (user_favorites d u))))"

definition add_favorite_planet :: "db \<Rightarrow> key \<Rightarrow> string option \<Rightarrow> outcome \<times> db" where
  "add_favorite_planet d planet_key user_arg =
     (case (query_get_arg uid (users d) user_arg, query_get pid (planets d) planet_key) of
       (Some u, Some p) \<Rightarrow>
         (Inr (jsonify (message ''Favorite planet added successfully'')),
          d\<lparr>favorites := insert_row fid
              (\<lambda>i. \<lparr>fid = i, user_id = uid u, planet_id = Some (pid p), character_id = None\<rparr>)
              (favorites d)\<rparr>)
     | _ \<Rightarrow> (Inr (with_status (jsonify (message ''User or Planet not found'')) 404), d))"

definition add_favorite_people :: "db \<Rightarrow> key \<Rightarrow> string option \<Rightarrow> outcome \<times> db" where
  "add_favorite_people d people_id user_arg =
     (case (query_get_arg uid (users d) user_arg, query_get cid (characters d) people_id) of
       (Some u, Some c) \<Rightarrow>
         (Inr (jsonify (message ''Favorite character added successfully'')),
          d\<lparr>favorites := insert_row fid
              (\<lambda>i. \<lparr>fid = i, user_id = uid u, planet_id = None, character_id = Some (cid c)\<rparr>)
              (favorites d)\<rparr>)
     | _ \<Rightarrow> (Inr (with_status (jsonify (message ''User or Character not found'')) 404), d))"

definition delete_favorite_planet :: "db \<Rightarrow> key \<Rightarrow> string option \<Rightarrow> outcome \<times> db" where
  "delete_favorite_planet d planet_key user_arg =
     (case query_get_arg uid (users d) user_arg of
       None \<Rightarrow> (Inl (AttributeError ''id''), d)
     | Some u \<Rightarrow>
         (case filter_by_first (\<lambda>f. user_id f = uid u \<and> planet_id f = Some planet_key)
                 (favorites d) of
           None \<Rightarrow> (Inr (with_status (jsonify (message ''User or Favorite not found'')) 404), d)
         | Some f \<Rightarrow>
             (Inr (jsonify (message ''Favorite planet deleted successfully'')),
              d\<lparr>favorites := delete_row fid f (favorites d)\<rparr>)))"

definition delete_favorite_people :: "db \<Rightarrow> key \<Rightarrow> string option \<Rightarrow> outcome \<times> db" where
  "delete_favorite_people d people_id user_arg =
     (case query_get_arg uid (users d) user_arg of
       None \<Rightarrow> (Inl (AttributeError ''id''), d)
     | Some u \<Rightarrow>
         (case filter_by_first (\<lambda>f. user_id f = uid u \<and> character_id f = Some people_id)
                 (favorites d) of
           None \<Rightarrow> (Inr (with_status (jsonify (message ''User or Favorite not found'')) 404), d)
         | Some f \<Rightarrow>
             (Inr (jsonify (message ''Favorite character deleted successfully'')),
              d\<lparr>favorites := delete_row fid f (favorites d)\<rparr>)))"

subsection \<open>Invariant of the favorites table\<close>

definition fav_exactly_one :: "favorite \<Rightarrow> bool" where
  "fav_exactly_one f \<longleftrightarrow> (planet_id f = None) \<noteq> (character_id f = None)"

definition fav_refs_ok :: "db \<Rightarrow> favorite \<Rightarrow> bool" where
  "fav_refs_ok d f \<longleftrightarrow>
     user_id f \<in> set (map uid (users d)) \<and>
     (case planet_id f of None \<Rightarrow> True | Some p \<Rightarrow> p \<in> set (map pid (planets d))) \<and>
     (case character_id f of None \<Rightarrow> True | Some c \<Rightarrow> c \<in> set (map cid (characters d)))"

definition favorites_inv :: "db \<Rightarrow> bool" where
  "favorites_inv d \<longleftrightarrow>
     wf_db d \<and> (\<forall>f \<in> set (favorites d). fav_exactly_one f \<and> fav_refs_ok d f)"

lemmas favorites_handler_defs [db_simps] = get_user_favorites_def add_favorite_planet_def
  add_favorite_people_def delete_favorite_planet_def delete_favorite_people_def

lemma fav_refs_ok_favorites_update [simp]:
  "fav_refs_ok (d\<lparr>favorites := fs\<rparr>) f = fav_refs_ok d f"
  by (simp add: fav_refs_ok_def split: option.splits)

lemma favorite_planet_favorites_update [simp]:
  "favorite_planet (d\<lparr>favorites := fs\<rparr>) = favorite_planet d"
  by (simp add: favorite_planet_def fun_eq_iff split: option.splits)

lemma favorite_character_favorites_update [simp]:
  "favorite_character (d\<lparr>favorites := fs\<rparr>) = favorite_character d"
  by (simp add: favorite_character_def fun_eq_iff split: option.splits)

lemma fav_entries_favorites_update [simp]:
  "fav_entries (d\<lparr>favorites := fs\<rparr>) xs = fav_entries d xs"
  by (induction xs) simp_all

lemma fav_entries_append:
  "fav_entries d (xs @ ys) = fav_entries d xs @ fav_entries d ys"
  by (induction xs) simp_all

text \<open>A row that satisfies the invariant yields exactly one entry, named by
  the row's own planet or character.\<close>

lemma fav_entries_single:
  assumes "fav_exactly_one f" and "fav_refs_ok d f"
  shows "fav_entries d [f] =
    [case planet_id f of
       Some p \<Rightarrow> JObj [(''planet'', JStr (pname (the (query_get pid (planets d) p))))]
     | None \<Rightarrow> JObj [(''character'', JStr (cname (the (query_get cid (characters d) (the (character_id f))))))]]"
proof (cases "planet_id f")
  case None
  with assms obtain c where c: "character_id f = Some c" and "c \<in> set (map cid (characters d))"
    by (auto simp: fav_exactly_one_def fav_refs_ok_def)
  then obtain ch where "query_get cid (characters d) c = Some ch" by (blast dest: query_get_member)
  with None c show ?thesis by (simp add: favorite_planet_def favorite_character_def)
next
  case (Some p)
  with assms have c: "character_id f = None" and "p \<in> set (map pid (planets d))"
    by (auto simp: fav_exactly_one_def fav_refs_ok_def)
  then obtain pl where "query_get pid (planets d) p = Some pl" by (blast dest: query_get_member)
  with Some c show ?thesis by (simp add: favorite_planet_def favorite_character_def)
qed

lemma fav_entries_rows:
  "\<forall>f \<in> set fs. fav_exactly_one f \<and> fav_refs_ok d f \<Longrightarrow>
   fav_entries d fs = map (\<lambda>f. case planet_id f of
       Some p \<Rightarrow> JObj [(''planet'', JStr (pname (the (query_get pid (planets d) p))))]
     | None \<Rightarrow> JObj [(''character'', JStr (cname (the (query_get cid (characters d) (the (character_id f))))))]) fs"
proof (induction fs)
  case Nil
  then show ?case by simp
next
  case (Cons f fs)
  have "fav_entries d (f # fs) = fav_entries d [f] @ fav_entries d fs" by simp
  with Cons fav_entries_single [of f d] show ?case by simp
qed

subsection \<open>The invariant under inserts and deletes\<close>

lemma favorites_inv_insert:
  assumes "favorites_inv d" and "fav_exactly_one r" and "fav_refs_ok d r"
    and "fid r = next_rowid fid (favorites d)"
  shows "favorites_inv (d\<lparr>favorites := favorites d @ [r]\<rparr>)"
proof -
  have "keys_ascending fid (insert_row fid (\<lambda>_. r) (favorites d))"
    using assms by (intro insert_row_ascending) (simp_all add: favorites_inv_def wf_db_def)
  with assms show ?thesis by (auto simp: favorites_inv_def wf_db_def insert_row_def)
qed

lemma favorites_inv_delete:
  "favorites_inv d \<Longrightarrow> favorites_inv (d\<lparr>favorites := delete_row fid f (favorites d)\<rparr>)"
  by (auto simp: favorites_inv_def wf_db_def delete_row_def)

subsection \<open>Adding a favorite\<close>

text \<open>C1: POST /favorite/planet/<id> with a user_id that finds a user and a planet id that finds a planet answers 200 with the success message and appends exactly one row to the favorites table: a fresh rowid one above the largest, that user, that planet, no character.\<close>

lemma add_favorite_planet_found:
  assumes "query_get_arg uid (users d) a = Some u" and "query_get pid (planets d) p = Some pl"
  shows "add_favorite_planet d p a =
    (Inr (jsonify (message ''Favorite planet added successfully'')),
     d\<lparr>favorites := favorites d @
        [\<lparr>fid = next_rowid fid (favorites d), user_id = uid u, planet_id = Some p, character_id = None\<rparr>]\<rparr>)"
  using assms by (auto simp: add_favorite_planet_def insert_row_def)

text \<open>C2: POST /favorite/planet/<id> when the user_id finds no user or the planet id finds no planet answers 404 with the combined message and leaves the database unchanged.\<close>

lemma add_favorite_planet_not_found:
  "query_get_arg uid (users d) a = None \<or> query_get pid (planets d) p = None \<Longrightarrow>
   add_favorite_planet d p a =
     (Inr (with_status (jsonify (message ''User or Planet not found'')) 404), d)"
  by (auto simp: add_favorite_planet_def split: option.splits)

text \<open>C8: POST /favorite/people/<id> with a known user and a known character answers 200 and appends exactly one row: a fresh rowid, that user, no planet, that character.\<close>

lemma add_favorite_people_found:
  assumes "query_get_arg uid (users d) a = Some u" and "query_get cid (characters d) c = Some ch"
  shows "add_favorite_people d c a =
    (Inr (jsonify (message ''Favorite character added successfully'')),
     d\<lparr>favorites := favorites d @
        [\<lparr>fid = next_rowid fid (favorites d), user_id = uid u, planet_id = None, character_id = Some c\<rparr>]\<rparr>)"
  using assms by (auto simp: add_favorite_people_def insert_row_def)

text \<open>C9: POST /favorite/people/<id> when the user or the character is missing answers 404 with the combined message and inserts nothing.\<close>

lemma add_favorite_people_not_found:
  "query_get_arg uid (users d) a = None \<or> query_get cid (characters d) c = None \<Longrightarrow>
   add_favorite_people d c a =
     (Inr (with_status (jsonify (message ''User or Character not found'')) 404), d)"
  by (auto simp: add_favorite_people_def split: option.splits)

subsection \<open>Deleting a favorite\<close>

text \<open>
  \<open>filter_by(...).first()\<close> reads the table in rowid order, so of several
  duplicate rows the one with the smallest rowid, the oldest, is deleted.
\<close>

text \<open>C3: DELETE /favorite/planet/<id> for a known user that has favorites of that planet answers 200 and removes exactly one row, the matching row with the smallest rowid; duplicates beyond it remain.\<close>

lemma delete_favorite_planet_oldest:
  assumes "wf_db d" and "query_get_arg uid (users d) a = Some u"
    and "f \<in> set (favorites d)" and "user_id f = uid u" and "planet_id f = Some p"
    and "\<forall>g \<in> set (favorites d). user_id g = uid u \<and> planet_id g = Some p \<longrightarrow> fid f \<le> fid g"
  shows "delete_favorite_planet d p a =
    (Inr (jsonify (message ''Favorite planet deleted successfully'')),
     d\<lparr>favorites := remove1 f (favorites d)\<rparr>)"
proof -
  from assms(1) have asc: "keys_ascending fid (favorites d)" by (simp add: wf_db_def)
  have "filter_by_first (\<lambda>g. user_id g = uid u \<and> planet_id g = Some p) (favorites d) = Some f"
    unfolding filter_by_first_def using asc assms(3-6) by (intro find_least_key) auto
  moreover have "delete_row fid f (favorites d) = remove1 f (favorites d)"
    unfolding delete_row_def using asc assms(3) by (intro filter_key_neq_remove1) auto
  ultimately show ?thesis using assms(2) by (simp add: delete_favorite_planet_def)
qed

text \<open>C7: For a known user with no favorite row of the given planet or character, DELETE /favorite/planet/<id> and DELETE /favorite/people/<id> answer 404 and leave the database unchanged.\<close>

lemma delete_favorite_planet_no_row:
  assumes "query_get_arg uid (users d) a = Some u"
    and "\<forall>g \<in> set (favorites d). \<not> (user_id g = uid u \<and> planet_id g = Some p)"
    and "\<forall>g \<in> set (favorites d). \<not> (user_id g = uid u \<and> character_id g = Some c)"
  shows "delete_favorite_planet d p a =
      (Inr (with_status (jsonify (message ''User or Favorite not found'')) 404), d) \<and>
    delete_favorite_people d c a =
      (Inr (with_status (jsonify (message ''User or Favorite not found'')) 404), d)"
  using assms
  by (simp add: delete_favorite_planet_def delete_favorite_people_def filter_by_first_None_iff [THEN iffD2])

text \<open>C4: DELETE /favorite/planet/<id> and DELETE /favorite/people/<id> with a user_id that finds no user (or none at all) raise AttributeError on user.id before the not-found branch is reached, leaving the database unchanged: the 404 the code means to send is never sent.\<close>

lemma delete_favorite_planet_unknown_user:
  "query_get_arg uid (users d) a = None \<Longrightarrow>
   delete_favorite_planet d p a = (Inl (AttributeError ''id''), d) \<and>
   delete_favorite_people d c a = (Inl (AttributeError ''id''), d)"
  by (simp add: delete_favorite_planet_def delete_favorite_people_def)

text \<open>C10: DELETE /favorite/people/<id> for a known user that has favorites of that character answers 200 and removes exactly the matching row with the smallest rowid.\<close>

lemma delete_favorite_people_oldest:
  assumes "wf_db d" and "query_get_arg uid (users d) a = Some u"
    and "f \<in> set (favorites d)" and "user_id f = uid u" and "character_id f = Some c"
    and "\<forall>g \<in> set (favorites d). user_id g = uid u \<and> character_id g = Some c \<longrightarrow> fid f \<le> fid g"
  shows "delete_favorite_people d c a =
    (Inr (jsonify (message ''Favorite character deleted successfully'')),
     d\<lparr>favorites := remove1 f (favorites d)\<rparr>)"
proof -
  from assms(1) have asc: "keys_ascending fid (favorites d)" by (simp add: wf_db_def)
  have "filter_by_first (\<lambda>g. user_id g = uid u \<and> character_id g = Some c) (favorites d) = Some f"
    unfolding filter_by_first_def using asc assms(3-6) by (intro find_least_key) auto
  moreover have "delete_row fid f (favorites d) = remove1 f (favorites d)"
    unfolding delete_row_def using asc assms(3) by (intro filter_key_neq_remove1) auto
  ultimately show ?thesis using assms(2) by (simp add: delete_favorite_people_def)
qed

subsection \<open>Every writing handler keeps the invariant\<close>

lemma add_favorite_planet_inv:
  assumes "favorites_inv d"
  shows "favorites_inv (snd (add_favorite_planet d p a))"
proof (cases "\<exists>u pl. query_get_arg uid (users d) a = Some u \<and> query_get pid (planets d) p = Some pl")
  case True
  then obtain u pl where u: "query_get_arg uid (users d) a = Some u"
    and pl: "query_get pid (planets d) p = Some pl" by blast
  from u pl have "uid u \<in> set (map uid (users d))" and "p \<in> set (map pid (planets d))"
    and "pid pl = p" by force+
  with assms u pl show ?thesis
    by (simp add: add_favorite_planet_def insert_row_def favorites_inv_insert fav_exactly_one_def fav_refs_ok_def)
next
  case False
  then have "snd (add_favorite_planet d p a) = d"
    by (auto simp: add_favorite_planet_def split: option.splits)
  with assms show ?thesis by simp
qed

lemma add_favorite_people_inv:
  assumes "favorites_inv d"
  shows "favorites_inv (snd (add_favorite_people d c a))"
proof (cases "\<exists>u ch. query_get_arg uid (users d) a = Some u \<and> query_get cid (characters d) c = Some ch")
  case True
  then obtain u ch where u: "query_get_arg uid (users d) a = Some u"
    and ch: "query_get cid (characters d) c = Some ch" by blast
  from u ch have "uid u \<in> set (map uid (users d))" and "c \<in> set (map cid (characters d))"
    and "cid ch = c" by force+
  with assms u ch show ?thesis
    by (simp add: add_favorite_people_def insert_row_def favorites_inv_insert fav_exactly_one_def fav_refs_ok_def)
next
  case False
  then have "snd (add_favorite_people d c a) = d"
    by (auto simp: add_favorite_people_def split: option.splits)
  with assms show ?thesis by simp
qed

lemma delete_favorite_planet_inv:
  "favorites_inv d \<Longrightarrow> favorites_inv (snd (delete_favorite_planet d p a))"
  by (simp add: delete_favorite_planet_def favorites_inv_delete split: option.splits)

lemma delete_favorite_people_inv:
  "favorites_inv d \<Longrightarrow> favorites_inv (snd (delete_favorite_people d c a))"
  by (simp add: delete_favorite_people_def favorites_inv_delete split: option.splits)

subsection \<open>Listing a user's favorites\<close>

text \<open>C12: GET /users/favorites with a user_id that finds no user, or with no user_id, answers 404 with 'User not found'.\<close>

lemma get_user_favorites_unknown_user:
  "query_get_arg uid (users d) a = None \<Longrightarrow>
   get_user_favorites d a = with_status (jsonify (message ''User not found'')) 404"
  by (simp add: get_user_favorites_def)

text \<open>C11: GET /users/favorites for a known user, in a database satisfying the favorites invariant, answers 200 with an array holding one entry per row of the favorites table whose user_id is that user's id, in rowid order: {planet: name} of the row's planet when planet_id is set, {character: name} of the row's character otherwise.\<close>

lemma get_user_favorites_one_per_row:
  assumes "favorites_inv d" and "query_get_arg uid (users d) a = Some u"
  shows "get_user_favorites d a = jsonify (JArr (map (\<lambda>f. case planet_id f of
       Some p \<Rightarrow> JObj [(''planet'', JStr (pname (the (query_get pid (planets d) p))))]
     | None \<Rightarrow> JObj [(''character'', JStr (cname (the (query_get cid (characters d) (the (character_id f))))))])
     [f \<leftarrow> favorites d. user_id f = uid u]))"
proof -
  from assms(1) have "\<forall>f \<in> set (user_favorites d u). fav_exactly_one f \<and> fav_refs_ok d f"
    by (auto simp: favorites_inv_def user_favorites_def)
  then have "fav_entries d (user_favorites d u) = map (\<lambda>f. case planet_id f of
       Some p \<Rightarrow> JObj [(''planet'', JStr (pname (the (query_get pid (planets d) p))))]
     | None \<Rightarrow> JObj [(''character'', JStr (cname (the (query_get cid (characters d) (the (character_id f))))))])
     (user_favorites d u)"
    by (rule fav_entries_rows)
  with assms(2) show ?thesis by (simp add: get_user_favorites_def user_favorites_def)
qed

end
