(* ===== verification/Api.thy ===== *)
theory Api
  imports Catalogue Favorites
begin

text \<open>
  The HTTP surface of \<^verbatim>\<open>src/app.py\<close>: each \<^verbatim>\<open>@app.route\<close> becomes a
  constructor of \<open>request\<close>, carrying the path parameter (Flask's
  \<^verbatim>\<open><int:...>\<close> converter) and the \<^verbatim>\<open>user_id\<close> query argument as it
  arrives (\<open>None\<close> when absent).  \<open>handle\<close> dispatches one request to its
  handler and returns the outcome and the next database; \<open>run\<close> serves a
  sequence of requests one after the other, as the single-threaded server
  does.  \<open>reachable_from d0\<close> is the set of databases the API can produce
  from a seeded database \<open>d0\<close>; the favorites invariant holds in all of
  them, by rule induction.

  The abstract specification of the favorites API is a multiset of
  \<open>(user, planet, character)\<close> triples: adding inserts one triple (duplicates
  allowed, spec section 4.2), deleting removes one copy.  \<open>fav_abs\<close> forgets
  the rowids and the order of the table, and \<open>abs_step\<close> is the contract;
  the refinement lemma says every request moves \<open>fav_abs\<close> exactly as
  \<open>abs_step\<close> does.
\<close>

datatype request =
    GetPeople
  | GetPerson key
  | GetPlanets
  | GetPlanet key
  | GetUsers
  | GetUserFavorites "string option"
  | PostFavoritePlanet key "string option"
  | PostFavoritePeople key "string option"
  | DeleteFavoritePlanet key "string option"
  | DeleteFavoritePeople key "string option"

fun handle :: "db \<Rightarrow> request \<Rightarrow> outcome \<times> db" where
  "handle d GetPeople = (Inr (get_people d), d)"
| "handle d (GetPerson i) = (Inr (get_person d i), d)"
| "handle d GetPlanets = (Inr (get_planets d), d)"
| "handle d (GetPlanet i) = (Inr (get_planet d i), d)"
| "handle d GetUsers = (Inr (get_users d), d)"
| "handle d (GetUserFavorites a) = (Inr (get_user_favorites d a), d)"
| "handle d (PostFavoritePlanet i a) = add_favorite_planet d i a"
| "handle d (PostFavoritePeople i a) = add_favorite_people d i a"
| "handle d (DeleteFavoritePlanet i a) = delete_favorite_planet d i a"
| "handle d (DeleteFavoritePeople i a) = delete_favorite_people d i a"

fun run :: "db \<Rightarrow> request list \<Rightarrow> outcome list \<times> db" where
  "run d [] = ([], d)"
| "run d (r # rs) =
     (let (out, d') = handle d r; (outs, d'') = run d' rs in (out # outs, d''))"

inductive reachable_from :: "db \<Rightarrow> db \<Rightarrow> bool" where
  seed: "reachable_from d0 d0"
| serve: "reachable_from d0 d \<Longrightarrow> reachable_from d0 (snd (handle d r))"

subsection \<open>Abstract specification\<close>

type_synonym fav_triple = "key \<times> key option \<times> key option"

definition fav_triple :: "favorite \<Rightarrow> fav_triple" where
  "fav_triple f = (user_id f, planet_id f, character_id f)"

definition fav_abs :: "db \<Rightarrow> fav_triple multiset" where
  "fav_abs d = image_mset fav_triple (mset (favorites d))"

definition abs_delete :: "fav_triple \<Rightarrow> fav_triple multiset \<Rightarrow> fav_triple multiset" where
  "abs_delete t m = (if t \<in># m then m - {#t#} else m)"

fun abs_step :: "db \<Rightarrow> request \<Rightarrow> fav_triple multiset \<Rightarrow> fav_triple multiset" where
  "abs_step d (PostFavoritePlanet p a) m =
     (case (query_get_arg uid (users d) a, query_get pid (planets d) p) of
       (Some u, Some _) \<Rightarrow> add_mset (uid u, Some p, None) m
     | _ \<Rightarrow> m)"
| "abs_step d (PostFavoritePeople c a) m =
     (case (query_get_arg uid (users d) a, query_get cid (characters d) c) of
       (Some u, Some _) \<Rightarrow> add_mset (uid u, None, Some c) m
     | _ \<Rightarrow> m)"
| "abs_step d (DeleteFavoritePlanet p a) m =
     (case query_get_arg uid (users d) a of
       None \<Rightarrow> m
     | Some u \<Rightarrow> abs_delete (uid u, Some p, None) m)"
| "abs_step d (DeleteFavoritePeople c a) m =
     (case query_get_arg uid (users d) a of
       None \<Rightarrow> m
     | Some u \<Rightarrow> abs_delete (uid u, None, Some c) m)"
| "abs_step d _ m = m"

fun abs_run :: "db \<Rightarrow> request list \<Rightarrow> fav_triple multiset \<Rightarrow> fav_triple multiset" where
  "abs_run d [] m = m"
| "abs_run d (r # rs) m = abs_run d rs (abs_step d r m)"

subsection \<open>The catalogue tables are never written\<close>

lemma handle_catalogue [simp]:
  "users (snd (handle d r)) = users d"
  "planets (snd (handle d r)) = planets d"
  "characters (snd (handle d r)) = characters d"
  by (cases r; auto simp: favorites_handler_defs split: option.splits prod.splits)+

lemma handle_inv:
  "favorites_inv d \<Longrightarrow> favorites_inv (snd (handle d r))"
  by (cases r)
     (simp_all add: add_favorite_planet_inv add_favorite_people_inv
        delete_favorite_planet_inv delete_favorite_people_inv)

subsection \<open>Refinement\<close>

lemma fav_abs_append [simp]:
  "fav_abs (d\<lparr>favorites := favorites d @ [r]\<rparr>) = add_mset (fav_triple r) (fav_abs d)"
  by (simp add: fav_abs_def)

lemma fav_abs_delete_row:
  assumes "wf_db d" and "f \<in> set (favorites d)"
  shows "fav_abs (d\<lparr>favorites := delete_row fid f (favorites d)\<rparr>) = fav_abs d - {#fav_triple f#}"
proof -
  from assms have "mset (delete_row fid f (favorites d)) = mset (favorites d) - {#f#}"
    by (intro mset_delete_row) (auto simp: wf_db_def)
  with assms(2) show ?thesis by (simp add: fav_abs_def image_mset_Diff)
qed

lemma fav_triple_in_abs:
  "(t \<in># fav_abs d) \<longleftrightarrow> (\<exists>f \<in> set (favorites d). fav_triple f = t)"
  by (auto simp: fav_abs_def)

lemma add_favorite_planet_refines:
  "fav_abs (snd (add_favorite_planet d p a)) = abs_step d (PostFavoritePlanet p a) (fav_abs d)"
  by (auto simp: add_favorite_planet_def insert_row_def fav_triple_def split: option.splits)

lemma add_favorite_people_refines:
  "fav_abs (snd (add_favorite_people d c a)) = abs_step d (PostFavoritePeople c a) (fav_abs d)"
  by (auto simp: add_favorite_people_def insert_row_def fav_triple_def split: option.splits)

lemma delete_favorite_planet_refines:
  assumes inv: "favorites_inv d"
  shows "fav_abs (snd (delete_favorite_planet d p a)) = abs_step d (DeleteFavoritePlanet p a) (fav_abs d)"
proof (cases "query_get_arg uid (users d) a")
  case None
  then show ?thesis by (simp add: delete_favorite_planet_def)
next
  case (Some u)
  let ?M = "\<lambda>f. user_id f = uid u \<and> planet_id f = Some p"
  show ?thesis
  proof (cases "filter_by_first ?M (favorites d)")
    case None
    then have "\<forall>f \<in> set (favorites d). \<not> ?M f" by (simp add: filter_by_first_None_iff)
    then have "(uid u, Some p, None) \<notin># fav_abs d" by (auto simp: fav_triple_in_abs fav_triple_def)
    with Some None show ?thesis by (simp add: delete_favorite_planet_def abs_delete_def)
  next
    case (Some f)
    then have f: "f \<in> set (favorites d)" "?M f" by auto
    with inv have "character_id f = None" and "wf_db d"
      by (auto simp: favorites_inv_def fav_exactly_one_def)
    with f have t: "fav_triple f = (uid u, Some p, None)" by (simp add: fav_triple_def)
    from f have "fav_triple f \<in># fav_abs d" by (auto simp: fav_triple_in_abs)
    with \<open>query_get_arg uid (users d) a = Some u\<close> Some f \<open>wf_db d\<close> t show ?thesis
      by (simp add: delete_favorite_planet_def abs_delete_def fav_abs_delete_row)
  qed
qed

lemma delete_favorite_people_refines:
  assumes inv: "favorites_inv d"
  shows "fav_abs (snd (delete_favorite_people d c a)) = abs_step d (DeleteFavoritePeople c a) (fav_abs d)"
proof (cases "query_get_arg uid (users d) a")
  case None
  then show ?thesis by (simp add: delete_favorite_people_def)
next
  case (Some u)
  let ?M = "\<lambda>f. user_id f = uid u \<and> character_id f = Some c"
  show ?thesis
  proof (cases "filter_by_first ?M (favorites d)")
    case None
    then have "\<forall>f \<in> set (favorites d). \<not> ?M f" by (simp add: filter_by_first_None_iff)
    then have "(uid u, None, Some c) \<notin># fav_abs d" by (auto simp: fav_triple_in_abs fav_triple_def)
    with Some None show ?thesis by (simp add: delete_favorite_people_def abs_delete_def)
  next
    case (Some f)
    then have f: "f \<in> set (favorites d)" "?M f" by auto
    with inv have "planet_id f = None" and "wf_db d"
      by (auto simp: favorites_inv_def fav_exactly_one_def)
    with f have t: "fav_triple f = (uid u, None, Some c)" by (simp add: fav_triple_def)
    from f have "fav_triple f \<in># fav_abs d" by (auto simp: fav_triple_in_abs)
    with \<open>query_get_arg uid (users d) a = Some u\<close> Some f \<open>wf_db d\<close> t show ?thesis
      by (simp add: delete_favorite_people_def abs_delete_def fav_abs_delete_row)
  qed
qed

lemma handle_fav_abs:
  "favorites_inv d \<Longrightarrow> fav_abs (snd (handle d r)) = abs_step d r (fav_abs d)"
  by (cases r)
     (simp_all add: add_favorite_planet_refines add_favorite_people_refines
        delete_favorite_planet_refines delete_favorite_people_refines)

lemma run_snd_Cons [simp]:
  "snd (run d (r # rs)) = snd (run (snd (handle d r)) rs)"
  by (cases "handle d r") (simp split: prod.splits)

declare run.simps(2) [simp del]

lemma run_catalogue:
  "users (snd (run d rs)) = users d \<and> planets (snd (run d rs)) = planets d \<and>
   characters (snd (run d rs)) = characters d"
  by (induction rs arbitrary: d) simp_all

lemma abs_run_catalogue:
  "users d' = users d \<Longrightarrow> planets d' = planets d \<Longrightarrow> characters d' = characters d \<Longrightarrow>
   abs_run d' rs m = abs_run d rs m"
proof (induction rs arbitrary: m)
  case Nil
  then show ?case by simp
next
  case (Cons r rs)
  have "abs_step d' r m = abs_step d r m"
    using Cons.prems by (cases r) simp_all
  with Cons show ?case by simp
qed

subsection \<open>The rowid allocator under requests\<close>

lemma handle_next_rowid:
  assumes "\<forall>f \<in> set (favorites d). 0 < fid f"
  shows "next_rowid fid (favorites (snd (handle d r))) \<le> next_rowid fid (favorites d) + 1 \<and>
    (\<forall>f \<in> set (favorites (snd (handle d r))). 0 < fid f)"
proof -
  have "next_rowid fid (filter P (favorites d)) \<le> next_rowid fid (favorites d) + 1" for P
    using next_rowid_filter [OF assms, of P] by simp
  then show ?thesis
    using assms next_rowid_positive [OF assms]
    by (cases r)
     (auto simp: favorites_handler_defs insert_row_def delete_row_def next_rowid_snoc
        split: option.splits prod.splits)
qed

subsection \<open>Properties of the API\<close>

text \<open>C5: Refinement.  Serving any sequence of requests from a database that
  satisfies the favorites invariant changes the multiset of favorites exactly as
  the abstract specification \<open>abs_step\<close> applied request by request: an add
  inserts one (user, target) pair, a delete removes one copy if there is one.\<close>

theorem run_refines:
  "favorites_inv d \<Longrightarrow> fav_abs (snd (run d rs)) = abs_run d rs (fav_abs d)"
proof (induction rs arbitrary: d)
  case Nil
  then show ?case by simp
next
  case (Cons r rs)
  let ?d' = "snd (handle d r)"
  have inv': "favorites_inv ?d'" using Cons.prems by (rule handle_inv)
  have "fav_abs (snd (run d (r # rs))) = fav_abs (snd (run ?d' rs))"
    by simp
  also have "\<dots> = abs_run ?d' rs (fav_abs ?d')" using inv' by (rule Cons.IH)
  also have "\<dots> = abs_run d rs (fav_abs ?d')" by (rule abs_run_catalogue) simp_all
  also have "\<dots> = abs_run d (r # rs) (fav_abs d)" using Cons.prems by (simp add: handle_fav_abs)
  finally show ?case .
qed

text \<open>C6: Invariant.  Every database the API can reach from a seeded database
  that satisfies the favorites invariant satisfies it too: ascending rowids,
  exactly one of planet_id and character_id per favorite, and no dangling
  foreign key.\<close>

theorem reachable_favorites_inv:
  "reachable_from d0 d \<Longrightarrow> favorites_inv d0 \<Longrightarrow> favorites_inv d"
  by (induction rule: reachable_from.induct) (simp_all add: handle_inv)

text \<open>C13: Error paths.  A request ends in an unhandled exception (HTTP 500)
  exactly when it is a delete whose user_id argument finds no user: every
  other request, whatever its arguments, gets a JSON response.\<close>

theorem handle_fault_iff:
  "(\<exists>e. fst (handle d r) = Inl e) \<longleftrightarrow>
   (\<exists>i a. (r = DeleteFavoritePlanet i a \<or> r = DeleteFavoritePeople i a) \<and>
          query_get_arg uid (users d) a = None)"
  by (cases r)
     (auto simp: favorites_handler_defs split: option.splits prod.splits)

text \<open>C22: Bounds.  Starting from a favorites table whose rowids are positive,
  serving n requests raises the rowid SQLite hands out next by at most n: each
  request inserts at most one row, with the rowid one above the largest, and a
  delete never raises it.  So the model's unbounded rowids stay within SQLite's
  64-bit range as long as the initial allocator plus the number of requests
  stays below 2^63 - 1, where Rowid.thy shows SQLite's allocator is exactly
  \<open>next_rowid\<close>.\<close>

theorem run_next_rowid_bound:
  assumes "\<forall>f \<in> set (favorites d). 0 < fid f"
  shows "next_rowid fid (favorites (snd (run d rs))) \<le> next_rowid fid (favorites d) + int (length rs)"
  using assms
proof (induction rs arbitrary: d)
  case Nil
  then show ?case by simp
next
  case (Cons r rs)
  have "next_rowid fid (favorites (snd (handle d r))) \<le> next_rowid fid (favorites d) + 1"
    and "\<forall>f \<in> set (favorites (snd (handle d r))). 0 < fid f"
    using handle_next_rowid [OF Cons.prems] by blast+
  with Cons.IH [of "snd (handle d r)"] show ?case by simp
qed

end
