(* ===== verification/Race.thy ===== *)
theory Race
  imports Api
begin

text \<open>
  Concurrent requests (spec section 5).  Flask's development server
  (\<open>app.run\<close>, app.py line 173) serves each request on its own thread,
  so requests overlap.  A writing handler of
  \<^verbatim>\<open>src/app.py\<close> runs in two phases that the server does not make atomic:
  its SELECTs (\<open>User.query.get\<close>, \<open>Planet.query.get\<close>, \<open>filter_by\<close>),
  which on SQLite run outside any transaction, and its write
  (\<open>db.session.add\<close>/\<open>delete\<close> then \<open>commit\<close>), which takes the
  database lock.  \<open>prepare\<close> is the first phase: it either answers at once
  (the 404 branches, the AttributeError, every GET) or leaves a \<open>pending\<close>
  write; \<open>commit_pending\<close> is the second.  The INSERT gets its rowid at
  commit time, from the table as it is then; the DELETE removes the row by
  its key, and when another request has already removed it the DELETE
  matches no row, which SQLAlchemy only warns about (no version column is
  mapped), so the request still answers 200.

  A configuration is the database and one \<open>thread\<close> per request in
  flight.  \<open>conc_step\<close> lets any unfinished request take its next phase;
  every interleaving of the phases is an execution.
\<close>

datatype pending =
    PendingInsert key "key option" "key option" string
  | PendingDelete favorite string

datatype phase = Answered outcome | Pending pending

datatype thread = Idle request | Prepared pending | Finished outcome

type_synonym config = "db \<times> thread list"

definition new_favorite :: "key \<Rightarrow> key option \<Rightarrow> key option \<Rightarrow> key \<Rightarrow> favorite" where
  "new_favorite u p c i = \<lparr>fid = i, user_id = u, planet_id = p, character_id = c\<rparr>"

definition prepare :: "db \<Rightarrow> request \<Rightarrow> phase" where
  "prepare d r =
     (case r of
       PostFavoritePlanet planet_key user_arg \<Rightarrow>
         (case (query_get_arg uid (users d) user_arg, query_get pid (planets d) planet_key) of
           (Some u, Some p) \<Rightarrow>
             Pending (PendingInsert (uid u) (Some (pid p)) None ''Favorite planet added successfully'')
         | _ \<Rightarrow> Answered (Inr (with_status (jsonify (message ''User or Planet not found'')) 404)))
     | PostFavoritePeople people_id user_arg \<Rightarrow>
         (case (query_get_arg uid (users d) user_arg, query_get cid (characters d) people_id) of
           (Some u, Some c) \<Rightarrow>
             Pending (PendingInsert (uid u) None (Some (cid c)) ''Favorite character added successfully'')
         | _ \<Rightarrow> Answered (Inr (with_status (jsonify (message ''User or Character not found'')) 404)))
     | DeleteFavoritePlanet planet_key user_arg \<Rightarrow>
         (case query_get_arg uid (users d) user_arg of
           None \<Rightarrow> Answered (Inl (AttributeError ''id''))
         | Some u \<Rightarrow>
             (case filter_by_first (\<lambda>f. user_id f = uid u \<and> planet_id f = Some planet_key)
                     (favorites d) of
               None \<Rightarrow> Answered (Inr (with_status (jsonify (message ''User or Favorite not found'')) 404))
             | Some f \<Rightarrow> Pending (PendingDelete f ''Favorite planet deleted successfully'')))
     | DeleteFavoritePeople people_id user_arg \<Rightarrow>
         (case query_get_arg uid (users d) user_arg of
           None \<Rightarrow> Answered (Inl (AttributeError ''id''))
         | Some u \<Rightarrow>
             (case filter_by_first (\<lambda>f. user_id f = uid u \<and> character_id f = Some people_id)
                     (favorites d) of
               None \<Rightarrow> Answered (Inr (with_status (jsonify (message ''User or Favorite not found'')) 404))
             | Some f \<Rightarrow> Pending (PendingDelete f ''Favorite character deleted successfully'')))
     | _ \<Rightarrow> Answered (fst (handle d r)))"

definition commit_pending :: "db \<Rightarrow> pending \<Rightarrow> outcome \<times> db" where
  "commit_pending d w =
     (case w of
       PendingInsert u p c msg \<Rightarrow>
         (Inr (jsonify (message msg)), d\<lparr>favorites := insert_row fid (new_favorite u p c) (favorites d)\<rparr>)
     | PendingDelete f msg \<Rightarrow>
         (Inr (jsonify (message msg)), d\<lparr>favorites := delete_row fid f (favorites d)\<rparr>))"

fun thread_work :: "thread \<Rightarrow> nat" where
  "thread_work (Idle _) = 2"
| "thread_work (Prepared _) = 1"
| "thread_work (Finished _) = 0"

definition start_thread :: "db \<Rightarrow> request \<Rightarrow> thread" where
  "start_thread d r = (case prepare d r of Answered out \<Rightarrow> Finished out | Pending w \<Rightarrow> Prepared w)"

definition step_thread :: "nat \<Rightarrow> config \<Rightarrow> config" where
  "step_thread i s =
     (let (d, ts) = s in
      if i < length ts then
        (case ts ! i of
          Idle r \<Rightarrow> (d, ts[i := start_thread d r])
        | Prepared w \<Rightarrow> (snd (commit_pending d w), ts[i := Finished (fst (commit_pending d w))])
        | Finished _ \<Rightarrow> (d, ts))
      else (d, ts))"

inductive conc_step :: "config \<Rightarrow> config \<Rightarrow> bool" where
  step: "i < length ts \<Longrightarrow> thread_work (ts ! i) \<noteq> 0 \<Longrightarrow> conc_step (d, ts) (step_thread i (d, ts))"

definition config_work :: "config \<Rightarrow> nat" where
  "config_work s = sum_list (map thread_work (snd s))"

definition all_finished :: "config \<Rightarrow> bool" where
  "all_finished s \<longleftrightarrow> (\<forall>t \<in> set (snd s). thread_work t = 0)"

definition pending_ok :: "db \<Rightarrow> pending \<Rightarrow> bool" where
  "pending_ok d w =
     (case w of
       PendingInsert u p c _ \<Rightarrow> fav_exactly_one (new_favorite u p c 0) \<and> fav_refs_ok d (new_favorite u p c 0)
     | PendingDelete _ _ \<Rightarrow> True)"

definition thread_ok :: "db \<Rightarrow> thread \<Rightarrow> bool" where
  "thread_ok d t = (case t of Prepared w \<Rightarrow> pending_ok d w | _ \<Rightarrow> True)"

definition config_inv :: "config \<Rightarrow> bool" where
  "config_inv s \<longleftrightarrow> favorites_inv (fst s) \<and> (\<forall>t \<in> set (snd s). thread_ok (fst s) t)"

subsection \<open>Abstraction of a configuration\<close>

fun is_delete :: "request \<Rightarrow> bool" where
  "is_delete (DeleteFavoritePlanet _ _) = True"
| "is_delete (DeleteFavoritePeople _ _) = True"
| "is_delete _ = False"

fun thread_abs :: "db \<Rightarrow> thread \<Rightarrow> fav_triple multiset" where
  "thread_abs d (Idle r) = abs_step d r {#}"
| "thread_abs d (Prepared (PendingInsert u p c _)) = {#(u, p, c)#}"
| "thread_abs d (Prepared (PendingDelete _ _)) = {#}"
| "thread_abs d (Finished _) = {#}"

fun thread_no_delete :: "thread \<Rightarrow> bool" where
  "thread_no_delete (Idle r) = (\<not> is_delete r)"
| "thread_no_delete (Prepared (PendingDelete _ _)) = False"
| "thread_no_delete _ = True"

definition same_catalogue :: "db \<Rightarrow> db \<Rightarrow> bool" where
  "same_catalogue d d' \<longleftrightarrow> users d' = users d \<and> planets d' = planets d \<and> characters d' = characters d"

definition adds_inv :: "db \<Rightarrow> fav_triple multiset \<Rightarrow> config \<Rightarrow> bool" where
  "adds_inv d0 target s \<longleftrightarrow>
     same_catalogue d0 (fst s) \<and> (\<forall>t \<in> set (snd s). thread_no_delete t) \<and>
     fav_abs (fst s) + sum_list (map (thread_abs d0) (snd s)) = target"

lemma new_favorite_fun:
  "new_favorite u p c = (\<lambda>i. \<lparr>fid = i, user_id = u, planet_id = p, character_id = c\<rparr>)"
  by (simp add: fun_eq_iff new_favorite_def)

text \<open>Splitting a handler into its read phase and its write phase is faithful: serving a request with nothing in between its SELECTs and its commit gives exactly the outcome and the database of the sequential handler, for every request.\<close>

lemma handle_phases:
  "handle d r = (case prepare d r of Answered out \<Rightarrow> (out, d) | Pending w \<Rightarrow> commit_pending d w)"
  by (cases r) (auto simp: prepare_def commit_pending_def favorites_handler_defs new_favorite_fun
        split: option.splits)

subsection \<open>The invariant under interleaving\<close>

lemma new_favorite_simps [simp]:
  "fid (new_favorite u p c i) = i" "user_id (new_favorite u p c i) = u"
  "planet_id (new_favorite u p c i) = p" "character_id (new_favorite u p c i) = c"
  by (simp_all add: new_favorite_def)

lemma commit_pending_catalogue [simp]:
  "users (snd (commit_pending d w)) = users d"
  "planets (snd (commit_pending d w)) = planets d"
  "characters (snd (commit_pending d w)) = characters d"
  by (simp_all add: commit_pending_def split: pending.split)

lemma thread_ok_catalogue:
  assumes "users d' = users d" and "planets d' = planets d" and "characters d' = characters d"
  shows "thread_ok d' t = thread_ok d t"
  using assms by (cases t) (auto simp: thread_ok_def pending_ok_def fav_refs_ok_def
      split: pending.split option.split)

lemma commit_pending_inv:
  assumes "favorites_inv d" and "pending_ok d w"
  shows "favorites_inv (snd (commit_pending d w))"
proof (cases w)
  case (PendingInsert u p c msg)
  let ?r = "new_favorite u p c (next_rowid fid (favorites d))"
  from assms PendingInsert have "fav_exactly_one ?r" and "fav_refs_ok d ?r"
    by (simp_all add: pending_ok_def fav_exactly_one_def fav_refs_ok_def)
  with assms(1) have "favorites_inv (d\<lparr>favorites := favorites d @ [?r]\<rparr>)"
    by (intro favorites_inv_insert) simp_all
  with PendingInsert show ?thesis by (simp add: commit_pending_def insert_row_def)
next
  case (PendingDelete f msg)
  with assms(1) show ?thesis by (simp add: commit_pending_def favorites_inv_delete)
qed

lemma prepare_pending_ok:
  "prepare d r = Pending w \<Longrightarrow> pending_ok d w"
  by (cases r) (auto simp: prepare_def pending_ok_def fav_exactly_one_def fav_refs_ok_def
        split: option.splits dest!: query_get_arg_SomeD query_get_SomeD)

lemma start_thread_ok:
  "thread_ok d (start_thread d r)"
  by (simp add: start_thread_def thread_ok_def prepare_pending_ok split: phase.split)

lemma set_update_ok:
  "\<forall>t \<in> set ts. P t \<Longrightarrow> P x \<Longrightarrow> \<forall>t \<in> set (ts[i := x]). P t"
  using set_update_subset_insert by fastforce

lemma conc_step_inv:
  assumes "conc_step s s'" and "config_inv s"
  shows "config_inv s'"
  using assms
proof cases
  case (step i ts d)
  from assms(2) step(1) have ok: "\<forall>t \<in> set ts. thread_ok d t" and inv: "favorites_inv d"
    by (simp_all add: config_inv_def)
  show ?thesis
  proof (cases "ts ! i")
    case (Idle r)
    then have s': "s' = (d, ts[i := start_thread d r])"
      using step(2,3) by (simp add: step_thread_def)
    have "\<forall>t \<in> set (ts[i := start_thread d r]). thread_ok d t"
      using ok start_thread_ok by (rule set_update_ok)
    with inv s' show ?thesis by (simp add: config_inv_def)
  next
    case (Prepared w)
    let ?d' = "snd (commit_pending d w)" and ?t = "Finished (fst (commit_pending d w))"
    have s': "s' = (?d', ts[i := ?t])"
      using Prepared step(2,3) by (simp add: step_thread_def)
    from ok step(3) have "thread_ok d (ts ! i)" by (blast intro: nth_mem)
    with Prepared have "pending_ok d w" by (simp add: thread_ok_def)
    with inv have inv': "favorites_inv ?d'" by (rule commit_pending_inv)
    from ok have "\<forall>t \<in> set ts. thread_ok ?d' t"
      using thread_ok_catalogue [of ?d' d] by simp
    moreover have "thread_ok ?d' ?t" by (simp add: thread_ok_def)
    ultimately have "\<forall>t \<in> set (ts[i := ?t]). thread_ok ?d' t" by (rule set_update_ok)
    with inv' s' show ?thesis by (simp add: config_inv_def)
  next
    case (Finished out)
    with step(4) show ?thesis by simp
  qed
qed

text \<open>C23: However the phases of any number of concurrent requests interleave, starting from a database that satisfies the favorites invariant, every database reached satisfies it: a row inserted by a request that checked its user and target earlier still refers to existing rows (the catalogue is never written) and gets a fresh rowid at commit.\<close>

theorem conc_favorites_inv:
  assumes "conc_step\<^sup>*\<^sup>* (d, map Idle rs) s" and "favorites_inv d"
  shows "favorites_inv (fst s)"
proof -
  from assms(2) have "config_inv (d, map Idle rs)" by (simp add: config_inv_def thread_ok_def)
  with assms(1) have "config_inv s"
    by (induction rule: rtranclp_induct) (simp_all add: conc_step_inv)
  then show ?thesis by (simp add: config_inv_def)
qed

subsection \<open>Termination, progress and races\<close>

lemma sum_list_update_less:
  fixes f :: "'a \<Rightarrow> nat"
  assumes "i < length ts" and "f x < f (ts ! i)"
  shows "sum_list (map f (ts[i := x])) < sum_list (map f ts)"
  using assms
proof (induction ts arbitrary: i)
  case Nil
  then show ?case by simp
next
  case (Cons t ts)
  then show ?case by (cases i) auto
qed

lemma conc_step_work:
  "conc_step s s' \<Longrightarrow> config_work s' < config_work s"
proof (induction rule: conc_step.induct)
  case (step i ts d)
  then show ?case
    by (cases "ts ! i")
       (simp_all add: step_thread_def config_work_def start_thread_def sum_list_update_less
          split: phase.split)
qed

lemma conc_step_intro:
  "i < length ts \<Longrightarrow> thread_work (ts ! i) \<noteq> 0 \<Longrightarrow> step_thread i (d, ts) = s' \<Longrightarrow> conc_step (d, ts) s'"
  using conc_step.step by blast

lemma conc_step_at:
  "i < length (snd s) \<Longrightarrow> thread_work (snd s ! i) \<noteq> 0 \<Longrightarrow> conc_step s (step_thread i s)"
  by (cases s) (simp add: conc_step.step)

text \<open>Every interleaving of request phases terminates: no infinite sequence of conc_step steps exists, since each step finishes one phase of one request.\<close>

lemma conc_step_wf:
  "wf {(s', s). conc_step s s'}"
proof (rule wf_subset)
  show "wf (measure config_work)" by simp
  show "{(s', s). conc_step s s'} \<subseteq> measure config_work"
    using conc_step_work by auto
qed

text \<open>From every configuration the requests in flight can all be served to completion: some sequence of steps reaches a configuration in which every request has its answer.\<close>

lemma conc_can_complete:
  "\<exists>s'. conc_step\<^sup>*\<^sup>* s s' \<and> all_finished s'"
proof (induction "config_work s" arbitrary: s rule: less_induct)
  case less
  obtain d ts where s: "s = (d, ts)" by (cases s)
  show ?case
  proof (cases "all_finished s")
    case True
    then show ?thesis by blast
  next
    case False
    then obtain i where "i < length ts" and "thread_work (ts ! i) \<noteq> 0"
      using s by (auto simp: all_finished_def in_set_conv_nth)
    then have st: "conc_step s (step_thread i s)" using s by (simp add: conc_step.step)
    then have "config_work (step_thread i s) < config_work s" by (rule conc_step_work)
    with less obtain s' where "conc_step\<^sup>*\<^sup>* (step_thread i s) s'" and "all_finished s'" by blast
    with st show ?thesis by (meson converse_rtranclp_into_rtranclp)
  qed
qed

lemma delete_row_idem [simp]:
  "delete_row k x (delete_row k x rows) = delete_row k x rows"
  by (simp add: delete_row_def)

text \<open>C24: Two identical DELETE /favorite/planet/<id> requests that both run their SELECT before either commits, when exactly one row matches, both answer 200 "deleted successfully" while only that one row is removed: the second DELETE matches no row and SQLAlchemy only warns. Served one after the other, the second answers 404 (C18).\<close>

theorem concurrent_deletes_both_succeed:
  assumes user: "query_get_arg uid (users d) a = Some u"
    and one: "filter (\<lambda>g. user_id g = uid u \<and> planet_id g = Some p) (favorites d) = [f]"
  shows "conc_step\<^sup>*\<^sup>* (d, [Idle (DeleteFavoritePlanet p a), Idle (DeleteFavoritePlanet p a)])
           (d\<lparr>favorites := delete_row fid f (favorites d)\<rparr>,
            [Finished (Inr (jsonify (message ''Favorite planet deleted successfully''))),
             Finished (Inr (jsonify (message ''Favorite planet deleted successfully'')))])"
proof -
  let ?r = "DeleteFavoritePlanet p a" and ?msg = "''Favorite planet deleted successfully''"
  let ?w = "PendingDelete f ?msg" and ?ok = "Finished (Inr (jsonify (message ?msg)))"
  let ?d' = "d\<lparr>favorites := delete_row fid f (favorites d)\<rparr>"
  have "filter_by_first (\<lambda>g. user_id g = uid u \<and> planet_id g = Some p) (favorites d) = Some f"
    using one by (simp add: filter_by_first_def find_eq_filter_head)
  with user have start: "start_thread d ?r = Prepared ?w"
    by (simp add: start_thread_def prepare_def)
  have s1: "conc_step (d, [Idle ?r, Idle ?r]) (d, [Prepared ?w, Idle ?r])"
    by (rule conc_step_intro [of 0]) (simp_all add: step_thread_def start)
  have s2: "conc_step (d, [Prepared ?w, Idle ?r]) (d, [Prepared ?w, Prepared ?w])"
    by (rule conc_step_intro [of 1]) (simp_all add: step_thread_def start)
  have s3: "conc_step (d, [Prepared ?w, Prepared ?w]) (?d', [?ok, Prepared ?w])"
    by (rule conc_step_intro [of 0]) (simp_all add: step_thread_def commit_pending_def)
  have s4: "conc_step (?d', [?ok, Prepared ?w]) (?d', [?ok, ?ok])"
    by (rule conc_step_intro [of 1]) (simp_all add: step_thread_def commit_pending_def)
  from s1 s2 s3 s4 show ?thesis
    by (meson converse_rtranclp_into_rtranclp rtranclp.rtrancl_refl)
qed

lemma sum_list_map_update:
  fixes f :: "'a \<Rightarrow> 'b::comm_monoid_add"
  assumes "i < length xs"
  shows "sum_list (map f (xs[i := x])) + f (xs ! i) = sum_list (map f xs) + f x"
  using assms
proof (induction xs arbitrary: i)
  case Nil
  then show ?case by simp
next
  case (Cons y xs)
  then show ?case by (cases i) (simp_all add: ac_simps)
qed

lemma abs_step_catalogue:
  "same_catalogue d d' \<Longrightarrow> abs_step d' r m = abs_step d r m"
  by (cases r) (simp_all add: same_catalogue_def)

lemma abs_step_no_delete:
  "\<not> is_delete r \<Longrightarrow> abs_step d r m = m + abs_step d r {#}"
  by (cases r) (simp_all split: option.split)

lemma abs_run_no_delete:
  "\<forall>r \<in> set rs. \<not> is_delete r \<Longrightarrow> abs_run d rs m = m + sum_list (map (\<lambda>r. abs_step d r {#}) rs)"
proof (induction rs arbitrary: m)
  case Nil
  then show ?case by simp
next
  case (Cons r rs)
  then show ?case by (simp add: abs_step_no_delete [of r d m] ac_simps)
qed

lemma start_thread_abs:
  assumes "\<not> is_delete r" and "same_catalogue d0 d"
  shows "thread_abs d0 (start_thread d r) = abs_step d0 r {#} \<and> thread_no_delete (start_thread d r)"
  using assms by (cases r) (auto simp: start_thread_def prepare_def same_catalogue_def split: option.split)

lemma fav_abs_insert_new:
  "fav_abs (d\<lparr>favorites := insert_row fid (new_favorite u p c) (favorites d)\<rparr>) = add_mset (u, p, c) (fav_abs d)"
  by (simp add: insert_row_def fav_triple_def)

lemma sum_list_finished:
  "\<forall>t \<in> set ts. thread_work t = 0 \<Longrightarrow> sum_list (map (thread_abs d) ts) = {#}"
proof (induction ts)
  case Nil
  then show ?case by simp
next
  case (Cons t ts)
  then show ?case by (cases t) simp_all
qed

lemma adds_step_inv:
  assumes "conc_step s s'" and "adds_inv d0 target s"
  shows "adds_inv d0 target s'"
  using assms(1)
proof cases
  case (step i ts d)
  let ?f = "thread_abs d0"
  from assms(2) step(1) have cat: "same_catalogue d0 d" and nd: "\<forall>t \<in> set ts. thread_no_delete t"
    and sum: "fav_abs d + sum_list (map ?f ts) = target"
    by (simp_all add: adds_inv_def)
  from nd step(3) have ndi: "thread_no_delete (ts ! i)" by (blast intro: nth_mem)
  show ?thesis
  proof (cases "ts ! i")
    case (Idle r)
    let ?t = "start_thread d r"
    from ndi Idle have "\<not> is_delete r" by simp
    with cat have t: "?f ?t = abs_step d0 r {#}" and ndt: "thread_no_delete ?t"
      by (simp_all add: start_thread_abs)
    have "sum_list (map ?f (ts[i := ?t])) + ?f (ts ! i) = sum_list (map ?f ts) + ?f ?t"
      using step(3) by (rule sum_list_map_update)
    with Idle t have "sum_list (map ?f (ts[i := ?t])) = sum_list (map ?f ts)" by simp
    moreover have "\<forall>t \<in> set (ts[i := ?t]). thread_no_delete t"
      using nd ndt by (rule set_update_ok)
    moreover have "s' = (d, ts[i := ?t])"
      using Idle step(2,3) by (simp add: step_thread_def)
    ultimately show ?thesis using cat sum by (simp add: adds_inv_def)
  next
    case (Prepared w)
    with ndi obtain u p c msg where w: "w = PendingInsert u p c msg" by (cases w) auto
    let ?d' = "snd (commit_pending d w)" and ?t = "Finished (fst (commit_pending d w))"
    have "sum_list (map ?f (ts[i := ?t])) + ?f (ts ! i) = sum_list (map ?f ts) + ?f ?t"
      using step(3) by (rule sum_list_map_update)
    with Prepared w have e: "sum_list (map ?f (ts[i := ?t])) + {#(u, p, c)#} = sum_list (map ?f ts)" by simp
    have "fav_abs ?d' = add_mset (u, p, c) (fav_abs d)"
      using w by (simp add: commit_pending_def fav_abs_insert_new)
    then have "fav_abs ?d' + sum_list (map ?f (ts[i := ?t])) =
        fav_abs d + (sum_list (map ?f (ts[i := ?t])) + {#(u, p, c)#})" by simp
    also have "\<dots> = target" using e sum by simp
    finally have "fav_abs ?d' + sum_list (map ?f (ts[i := ?t])) = target" .
    moreover have "\<forall>t \<in> set (ts[i := ?t]). thread_no_delete t"
      using nd by (rule set_update_ok) simp
    moreover have "same_catalogue d0 ?d'" using cat by (simp add: same_catalogue_def)
    moreover have "s' = (?d', ts[i := ?t])"
      using Prepared step(2,3) by (simp add: step_thread_def)
    ultimately show ?thesis by (simp add: adds_inv_def)
  next
    case (Finished out)
    with step(4) show ?thesis by simp
  qed
qed

text \<open>C25: For requests without deletes, every complete interleaving of their phases leaves the favorites table with the same multiset of (user, planet, character) triples as serving them one after the other in the abstract specification: the add race of spec section 5 produces exactly the duplicates the serial runs produce.\<close>

theorem concurrent_adds_serializable:
  assumes "\<forall>r \<in> set rs. \<not> is_delete r" and "conc_step\<^sup>*\<^sup>* (d, map Idle rs) s"
    and "all_finished s"
  shows "fav_abs (fst s) = abs_run d rs (fav_abs d)"
proof -
  let ?target = "fav_abs d + sum_list (map (\<lambda>r. abs_step d r {#}) rs)"
  have "adds_inv d ?target (d, map Idle rs)"
    using assms(1) by (simp add: adds_inv_def same_catalogue_def comp_def)
  with assms(2) have inv: "adds_inv d ?target s"
    by (induction rule: rtranclp_induct) (simp_all add: adds_step_inv)
  have "sum_list (map (thread_abs d) (snd s)) = {#}"
    using assms(3) by (simp add: all_finished_def sum_list_finished)
  with inv assms(1) show ?thesis by (simp add: adds_inv_def abs_run_no_delete)
qed

end
