(* ===== verification/Storage.thy ===== *)
theory Storage
  imports Api
begin

text \<open>
  The tables the handlers run against.  Every SELECT SQLAlchemy emits for a
  class of \<^verbatim>\<open>src/app.py\<close> names all the columns the class maps, in
  declaration order; SQLite rejects the statement with
  \<^verbatim>\<open>OperationalError: no such table\<close> or \<^verbatim>\<open>no such column\<close> when the
  database was created from other declarations.  \<open>tables_queried\<close> lists the
  tables each handler reads, in the order its statements run and only as far
  as they run (a fault or an early return ends the list); \<open>select_fault\<close>
  is SQLite's verdict on one SELECT against a physical schema, given as the
  column declarations the tables were created from; \<open>handle_on\<close> serves a
  request against that schema.  Every handler issues all its SELECTs before
  its INSERT or DELETE, and the favorite table is the same in both
  declarations, so a rejected SELECT leaves the database unchanged.
  \<open>create_all\<close> gives the tables a database file has after SQLAlchemy's
  \<open>create_all\<close> has run on it.
\<close>

definition select_fault :: "(string \<times> column list) list \<Rightarrow> string \<Rightarrow> fault option" where
  "select_fault sch t =
     (case map_of sch t of
       None \<Rightarrow> Some (OperationalError (''no such table: '' @ t))
     | Some cs \<Rightarrow>
         (case filter (\<lambda>c. c \<notin> set (map column_name cs)) (table_columns app_schema t) of
           [] \<Rightarrow> None
         | c # _ \<Rightarrow> Some (OperationalError (''no such column: '' @ t @ ''.'' @ c))))"

fun first_fault :: "(string \<times> column list) list \<Rightarrow> string list \<Rightarrow> fault option" where
  "first_fault sch [] = None"
| "first_fault sch (t # ts) = (case select_fault sch t of None \<Rightarrow> first_fault sch ts | e \<Rightarrow> e)"

definition favorite_loads :: "favorite \<Rightarrow> string list" where
  "favorite_loads f =
     (case planet_id f of None \<Rightarrow> [] | Some _ \<Rightarrow> [''planet'']) @
     (case character_id f of None \<Rightarrow> [] | Some _ \<Rightarrow> [''character''])"

fun tables_queried :: "db \<Rightarrow> request \<Rightarrow> string list" where
  "tables_queried d GetPeople = [''character'']"
| "tables_queried d (GetPerson _) = [''character'']"
| "tables_queried d GetPlanets = [''planet'']"
| "tables_queried d (GetPlanet _) = [''planet'']"
| "tables_queried d GetUsers = [''user'']"
| "tables_queried d (GetUserFavorites a) =
     ''user'' # (case query_get_arg uid (users d) a of
                  None \<Rightarrow> []
                | Some u \<Rightarrow> ''favorite'' # concat (map favorite_loads (user_favorites d u)))"
| "tables_queried d (PostFavoritePlanet _ _) = [''user'', ''planet'']"
| "tables_queried d (PostFavoritePeople _ _) = [''user'', ''character'']"
| "tables_queried d (DeleteFavoritePlanet _ a) =
     ''user'' # (case query_get_arg uid (users d) a of None \<Rightarrow> [] | Some _ \<Rightarrow> [''favorite''])"
| "tables_queried d (DeleteFavoritePeople _ a) =
     ''user'' # (case query_get_arg uid (users d) a of None \<Rightarrow> [] | Some _ \<Rightarrow> [''favorite''])"

definition handle_on :: "(string \<times> column list) list \<Rightarrow> db \<Rightarrow> request \<Rightarrow> outcome \<times> db" where
  "handle_on sch d r =
     (case first_fault sch (tables_queried d r) of
       Some e \<Rightarrow> (Inl e, d)
     | None \<Rightarrow> handle d r)"

text \<open>\<open>create_all\<close> is SQLAlchemy's \<open>MetaData.create_all\<close> with its default
  \<open>checkfirst=True\<close> (models.py line 55, and Flask-SQLAlchemy's
  \<open>db.create_all()\<close>): it issues CREATE TABLE for each table of the
  metadata the database does not have yet and leaves an existing table as it
  is, even when its columns differ.\<close>

definition create_all :: "(string \<times> column list) list \<Rightarrow> (string \<times> column list) list \<Rightarrow>
    (string \<times> column list) list" where
  "create_all metadata existing = existing @ filter (\<lambda>(t, _). t \<notin> set (map fst existing)) metadata"

lemma select_fault_app_schema:
  "t \<in> {''user'', ''planet'', ''character'', ''favorite''} \<Longrightarrow> select_fault app_schema t = None"
  by (auto simp: select_fault_def table_columns_def app_schema_def)

lemma favorite_loads_tables:
  "set (concat (map favorite_loads fs)) \<subseteq> {''planet'', ''character''}"
  by (induction fs) (auto simp: favorite_loads_def split: option.split)

lemma tables_queried_known:
  "set (tables_queried d r) \<subseteq> {''user'', ''planet'', ''character'', ''favorite''}"
proof (cases r)
  case (GetUserFavorites a)
  then show ?thesis using favorite_loads_tables by (auto split: option.split)
qed (auto split: option.split)

lemma first_fault_None:
  "\<forall>t \<in> set ts. select_fault sch t = None \<Longrightarrow> first_fault sch ts = None"
  by (induction ts) simp_all

lemma first_fault_app_schema:
  "first_fault app_schema (tables_queried d r) = None"
proof -
  have "select_fault app_schema t = None" if "t \<in> set (tables_queried d r)" for t
    by (rule select_fault_app_schema [OF subsetD [OF tables_queried_known that]])
  then show ?thesis by (blast intro: first_fault_None)
qed

lemma tables_queried_Cons:
  "\<exists>t ts. tables_queried d r = t # ts"
  by (cases r) simp_all

text \<open>Against tables created from the declarations of src/app.py every SELECT
  the handlers issue is accepted, so serving a request against the storage is
  exactly the handler.\<close>

lemma handle_on_app_schema:
  "handle_on app_schema d r = handle d r"
  by (simp add: handle_on_def first_fault_app_schema)

text \<open>C26: Against a database whose tables were created from the classes of
  src/models.py (the create_all of models.py line 55 builds starwars_blog.db
  so, the file line 15 of app.py names), only GET /planets and
  GET /planets/<id> work: every request that reads the user table first
  fails with "no such column: user.subscription_date", and GET /people and
  GET /people/<id> fail with "no such column: character.affiliation"; no
  request then changes the database.\<close>

theorem handle_on_models_schema:
  "handle_on models_schema d r =
     (case r of
       GetPlanets \<Rightarrow> handle d r
     | GetPlanet _ \<Rightarrow> handle d r
     | GetPeople \<Rightarrow> (Inl (OperationalError ''no such column: character.affiliation''), d)
     | GetPerson _ \<Rightarrow> (Inl (OperationalError ''no such column: character.affiliation''), d)
     | _ \<Rightarrow> (Inl (OperationalError ''no such column: user.subscription_date''), d))"
  by (cases r)
     (simp_all add: handle_on_def select_fault_def table_columns_def app_schema_def models_schema_def)

text \<open>Against a database file without tables every request fails with
  OperationalError "no such table" for the first table it reads, and changes
  nothing.  app.py never calls create_all and the repository holds no
  migration, so this is the default sqlite:////tmp/test.db on a fresh
  machine.\<close>

lemma handle_on_no_tables:
  "handle_on [] d r = (Inl (OperationalError (''no such table: '' @ hd (tables_queried d r))), d)"
proof -
  obtain t ts where q: "tables_queried d r = t # ts" using tables_queried_Cons by blast
  then show ?thesis by (simp add: handle_on_def select_fault_def)
qed

text \<open>app.py's own create_all on a fresh database file gives tables on which
  every request is served by its handler; but run on the file models.py's
  create_all has built, it adds nothing, since all four tables exist, and the
  requests keep failing exactly as on models.py's tables (C26).\<close>

lemma handle_on_create_all:
  "handle_on (create_all app_schema []) d r = handle d r \<and>
   handle_on (create_all app_schema (create_all models_schema [])) d r = handle_on models_schema d r"
proof -
  have "create_all app_schema [] = app_schema" by (simp add: create_all_def)
  moreover have "create_all app_schema (create_all models_schema []) = models_schema"
    by (simp add: create_all_def app_schema_def models_schema_def)
  ultimately show ?thesis by (simp add: handle_on_def first_fault_app_schema)
qed

end
