(* ===== verification/Config.thy ===== *)
theory Config
  imports Prelude
begin

text \<open>
  The database configuration of \<^verbatim>\<open>src/app.py\<close>, lines 14--23.  Line 15
  sets \<^verbatim>\<open>sqlite:///starwars_blog.db\<close>, and lines 18--22 always overwrite it:
  with \<^verbatim>\<open>DATABASE_URL\<close> rewritten by \<^verbatim>\<open>str.replace("postgres://",
  "postgresql://")\<close> when the variable is set, with
  \<^verbatim>\<open>sqlite:////tmp/test.db\<close> otherwise.  \<open>py_replace\<close> is Python's
  \<open>str.replace(old, new)\<close> without a count: a left-to-right scan that
  replaces each non-overlapping occurrence; an empty \<open>old\<close> inserts \<open>new\<close>
  before every character and at the end, as CPython does.  The scan is a
  \<^theory_text>\<open>function\<close> whose termination measure is the length of the unread
  input.
\<close>

function py_replace_scan :: "string \<Rightarrow> string \<Rightarrow> string \<Rightarrow> string" where
  "py_replace_scan old new [] = []"
| "py_replace_scan old new (c # cs) =
     (if old \<noteq> [] \<and> take (length old) (c # cs) = old
      then new @ py_replace_scan old new (drop (length old) (c # cs))
      else c # py_replace_scan old new cs)"
  by pat_completeness auto
termination
  by (relation "measure (\<lambda>(old, new, s). length s)") auto

definition py_replace :: "string \<Rightarrow> string \<Rightarrow> string \<Rightarrow> string" where
  "py_replace s old new =
     (if old = [] then new @ concat (map (\<lambda>c. c # new) s) else py_replace_scan old new s)"

fun occurs_in :: "string \<Rightarrow> string \<Rightarrow> bool" where
  "occurs_in p [] = (p = [])"
| "occurs_in p (c # cs) = (take (length p) (c # cs) = p \<or> occurs_in p cs)"

definition database_uri :: "string option \<Rightarrow> string" where
  "database_uri db_url =
     (case db_url of
       Some url \<Rightarrow> py_replace url ''postgres://'' ''postgresql://''
     | None \<Rightarrow> ''sqlite:////tmp/test.db'')"

lemma py_replace_scan_no_occurrence:
  "\<not> occurs_in old s \<Longrightarrow> py_replace_scan old new s = s"
  by (induction old new s rule: py_replace_scan.induct) auto

lemma py_replace_scan_prefix_kept:
  assumes "new \<noteq> []" and "hd new \<notin> set q"
    and "take (length q) (py_replace_scan old new s) = q"
  shows "take (length q) s = q"
  using assms(2,3)
proof (induction q arbitrary: s)
  case Nil
  then show ?case by simp
next
  case (Cons x q)
  then obtain c cs where s: "s = c # cs" by (cases s) auto
  show ?case
  proof (cases "old \<noteq> [] \<and> take (length old) (c # cs) = old")
    case True
    with Cons.prems assms(1) s show ?thesis by (cases new) auto
  next
    case False
    with Cons.prems s have "c = x" and "take (length q) (py_replace_scan old new cs) = q" by auto
    with Cons.IH Cons.prems(1) s show ?thesis by simp
  qed
qed

lemma occurs_in_postgresql_prefix:
  "\<not> occurs_in ''postgres://'' ys \<Longrightarrow> \<not> occurs_in ''postgres://'' (''postgresql://'' @ ys)"
  by simp

lemma take_postgres_Cons:
  "take (length ''postgres://'') (c # s) = ''postgres://'' \<longleftrightarrow>
   c = CHR ''p'' \<and> take (length ''ostgres://'') s = ''ostgres://''"
  by (simp only: list.size take_Suc_Cons) simp

lemma py_replace_scan_postgres:
  "\<not> occurs_in ''postgres://'' (py_replace_scan ''postgres://'' ''postgresql://'' s)"
proof (induction "''postgres://''" "''postgresql://''" s rule: py_replace_scan.induct)
  case 1
  then show ?case by simp
next
  case (2 c cs)
  let ?old = "''postgres://''" and ?new = "''postgresql://''"
  show ?case
  proof (cases "take (length ?old) (c # cs) = ?old")
    case True
    then have eq: "py_replace_scan ?old ?new (c # cs) = ?new @ py_replace_scan ?old ?new (drop (length ?old) (c # cs))"
      by (simp only: py_replace_scan.simps(2)) simp
    have "\<not> occurs_in ?old (py_replace_scan ?old ?new (drop (length ?old) (c # cs)))"
      using 2(1) True by blast
    then show ?thesis unfolding eq by (rule occurs_in_postgresql_prefix)
  next
    case False
    let ?r = "py_replace_scan ?old ?new cs"
    have eq: "py_replace_scan ?old ?new (c # cs) = c # ?r"
      using False by (simp only: py_replace_scan.simps(2)) simp
    have "take (length ?old) (c # ?r) \<noteq> ?old"
    proof
      assume "take (length ?old) (c # ?r) = ?old"
      then have "c = CHR ''p''" and "take (length ''ostgres://'') ?r = ''ostgres://''"
        by (simp_all only: take_postgres_Cons)
      moreover have "take (length ''ostgres://'') cs = ''ostgres://''"
        by (rule py_replace_scan_prefix_kept [OF _ _ calculation(2)]) simp_all
      ultimately show False using False by (simp only: take_postgres_Cons) simp
    qed
    with False 2(2) eq show ?thesis by (simp only: occurs_in.simps) simp
  qed
qed

text \<open>C20: With DATABASE_URL set to a postgres:// URL whose remainder holds no
  further postgres://, the configured URI is the same URL with the scheme
  postgresql://, the name SQLAlchemy accepts; nothing else changes.\<close>

theorem database_uri_postgres_scheme:
  "\<not> occurs_in ''postgres://'' rest \<Longrightarrow>
   database_uri (Some (''postgres://'' @ rest)) = ''postgresql://'' @ rest"
  by (simp add: database_uri_def py_replace_def py_replace_scan_no_occurrence)

text \<open>C21: Whatever DATABASE_URL holds, the configured URI contains no
  postgres:// (the scheme SQLAlchemy 1.4 rejects): the replacement removes
  every occurrence and creates none, and the fallback has none.\<close>

theorem database_uri_no_postgres_scheme:
  "\<not> occurs_in ''postgres://'' (database_uri db_url)"
  by (cases db_url) (simp_all add: database_uri_def py_replace_def py_replace_scan_postgres)
end
