(* ===== verification/Rowid.thy ===== *)
theory Rowid
  imports Orm "HOL-Library.Word"
begin

text \<open>
  The rowid SQLite gives a row inserted without an explicit key (the INSERT
  that \<open>db.session.commit\<close> issues for a new \<open>Favorite\<close>, app.py lines
  134--135 and 146--147).  A rowid is a signed 64-bit integer; SQLite's
  \<^verbatim>\<open>OP_NewRowid\<close> takes 1 in an empty table and otherwise one more than
  the largest rowid, unless that is already \<open>2^63 - 1\<close>: then it falls back
  to trying random unused rowids, a choice the model leaves open
  (\<open>None\<close>).  \<open>next_rowid\<close> of \<open>Orm\<close> is the same computation on
  unbounded integers; the theorem here says exactly when the two agree.
\<close>

type_synonym rowid = "64 word"

definition sqlite_new_rowid :: "rowid list \<Rightarrow> rowid option" where
  "sqlite_new_rowid ks =
     (case ks of
       [] \<Rightarrow> Some 1
     | k # ks' \<Rightarrow>
         (let m = fold (\<lambda>x m. if m <s x then x else m) ks' k in
          if m = 9223372036854775807 then None else Some (m + 1)))"

lemma sint_smax:
  "sint (if m <s x then x else m) = max (sint x) (sint (m :: rowid))"
  by (simp add: word_sless_alt)

lemma sint_fold_smax:
  fixes rk :: "'r \<Rightarrow> rowid"
  shows "sint (fold (\<lambda>x m. if m <s rk x then rk x else m) rs k) = fold (\<lambda>x m. max (sint (rk x)) m) rs (sint k)"
  by (induction rs arbitrary: k) (simp_all add: sint_smax)

lemma sint_max_rowid_iff:
  "sint (m :: rowid) = 2 ^ 63 - 1 \<longleftrightarrow> m = 9223372036854775807"
proof
  assume "sint m = 2 ^ 63 - 1"
  then have "word_of_int (sint m) = (word_of_int (2 ^ 63 - 1) :: rowid)" by simp
  then show "m = 9223372036854775807" by simp
qed simp

lemma sint_rowid_le: "sint (m :: rowid) \<le> 2 ^ 63 - 1"
  using sint_less [of m] by simp

text \<open>The 64-bit rowid SQLite assigns is the unbounded next_rowid of the
  model whenever that value fits in a signed 64-bit integer, and SQLite takes
  its random-rowid fallback exactly when it would not: the largest rowid is
  2^63 - 1, where the word addition would wrap to -2^63.\<close>

lemma sqlite_new_rowid_refines:
  "sqlite_new_rowid (map rk rows) =
     (if next_rowid (\<lambda>r. sint (rk r)) rows \<le> 2 ^ 63 - 1
      then Some (word_of_int (next_rowid (\<lambda>r. sint (rk r)) rows)) else None)"
proof (cases rows)
  case Nil
  then show ?thesis by (simp add: sqlite_new_rowid_def next_rowid_def)
next
  case (Cons r rs)
  let ?m = "fold (\<lambda>x m. if m <s x then x else m) (map rk rs) (rk r)"
  have "?m = fold (\<lambda>x m. if m <s rk x then rk x else m) rs (rk r)"
    by (simp add: fold_map comp_def)
  then have m: "sint ?m = fold (\<lambda>x m. max (sint (rk x)) m) rs (sint (rk r))"
    by (simp only: sint_fold_smax)
  have nr: "next_rowid (\<lambda>r. sint (rk r)) rows = sint ?m + 1"
    using Cons m by (simp add: next_rowid_def)
  have "sint ?m + 1 \<le> 2 ^ 63 - 1 \<longleftrightarrow> ?m \<noteq> 9223372036854775807"
    using sint_rowid_le [of ?m] sint_max_rowid_iff [of ?m] by linarith
  moreover have "word_of_int (sint ?m + 1) = ?m + 1" by simp
  ultimately show ?thesis using Cons nr by (simp add: sqlite_new_rowid_def Let_def)
qed

end
