(* ===== verification/Startup.thy ===== *)
theory Startup
  imports Http
begin

text \<open>
  Start-up: the module-level statements of \<^verbatim>\<open>src/app.py\<close> and
  \<^verbatim>\<open>src/models.py\<close>, executed as Python executes a module on import.  A
  statement either binds names in the module namespace or raises, and a raise
  ends the module.  \<open>Import m\<close> and \<open>ImportFrom m xs\<close> load module
  \<open>m\<close>: a module not installed raises \<open>ModuleNotFoundError\<close>, a listed
  name the module does not define raises \<open>ImportError\<close>.  \<open>Bind x reads\<close>
  (an assignment, a \<^verbatim>\<open>class\<close> or a decorated \<^verbatim>\<open>def\<close>) evaluates the
  names it reads, left to right, then binds \<open>x\<close>; \<open>Expr reads\<close> evaluates
  them for effect; an unbound name raises \<open>NameError\<close>.  Function bodies
  are not executed at import, so a \<^verbatim>\<open>def\<close> reads only its decorator.

  The libraries are a parameter: \<open>pyenv\<close> gives, for each module name, the
  names it exports, or \<open>None\<close> when it is not installed (this includes
  \<^verbatim>\<open>utils\<close> and \<^verbatim>\<open>admin\<close>, which the repository does not contain).  The
  repository's own \<^verbatim>\<open>models\<close> is executed from \<open>models_py\<close>.
\<close>

type_synonym pyenv = "string \<Rightarrow> string list option"

datatype stmt =
    Import string
  | ImportFrom string "string list"
  | Bind string "string list"
  | Expr "string list"

definition py_quote :: "string \<Rightarrow> string" where
  "py_quote s = CHR 0x27 # s @ [CHR 0x27]"

definition import_lib :: "pyenv \<Rightarrow> string \<Rightarrow> fault + string list" where
  "import_lib env m =
     (case env m of
       None \<Rightarrow> Inl (ModuleNotFoundError (''No module named '' @ py_quote m))
     | Some ex \<Rightarrow> Inr ex)"

definition read_names :: "string list \<Rightarrow> string list \<Rightarrow> fault option" where
  "read_names ns reads =
     (case find (\<lambda>r. r \<notin> set ns) reads of
       None \<Rightarrow> None
     | Some r \<Rightarrow> Some (NameError (''name '' @ py_quote r @ '' is not defined'')))"

fun exec_stmt :: "(string \<Rightarrow> fault + string list) \<Rightarrow> string list \<Rightarrow> stmt \<Rightarrow> fault + string list" where
  "exec_stmt imp ns (Import m) =
     (case imp m of Inl e \<Rightarrow> Inl e | Inr _ \<Rightarrow> Inr (ns @ [takeWhile (\<lambda>c. c \<noteq> CHR ''.'') m]))"
| "exec_stmt imp ns (ImportFrom m xs) =
     (case imp m of
       Inl e \<Rightarrow> Inl e
     | Inr ex \<Rightarrow>
         (case find (\<lambda>x. x \<notin> set ex) xs of
           None \<Rightarrow> Inr (ns @ xs)
         | Some x \<Rightarrow> Inl (ImportError (''cannot import name '' @ py_quote x @ '' from '' @ py_quote m))))"
| "exec_stmt imp ns (Bind x reads) =
     (case read_names ns reads of None \<Rightarrow> Inr (ns @ [x]) | Some e \<Rightarrow> Inl e)"
| "exec_stmt imp ns (Expr reads) =
     (case read_names ns reads of None \<Rightarrow> Inr ns | Some e \<Rightarrow> Inl e)"

fun run_stmts :: "(string \<Rightarrow> fault + string list) \<Rightarrow> string list \<Rightarrow> stmt list \<Rightarrow> fault + string list" where
  "run_stmts imp ns [] = Inr ns"
| "run_stmts imp ns (s # ss) = (case exec_stmt imp ns s of Inl e \<Rightarrow> Inl e | Inr ns' \<Rightarrow> run_stmts imp ns' ss)"

definition models_py :: "stmt list" where
  "models_py =
    [Import ''os'',
     Import ''sys'',
     ImportFrom ''sqlalchemy'' [''Column'', ''Integer'', ''String'', ''DateTime'', ''ForeignKey'', ''Text''],
     ImportFrom ''sqlalchemy.orm'' [''relationship'', ''declarative_base''],
     ImportFrom ''flask_sqlalchemy'' [''SQLAlquemy''],
     ImportFrom ''sqlalchemy'' [''create_engine''],
     ImportFrom ''eralchemy2'' [''render_er''],
     ImportFrom ''datetime'' [''datetime''],
     Bind ''Base'' [''declarative_base''],
     Bind ''User'' [''Base'', ''Column'', ''Integer'', ''String'', ''relationship''],
     Bind ''Planet'' [''Base'', ''Column'', ''Integer'', ''String'', ''relationship''],
     Bind ''Character'' [''Base'', ''Column'', ''Integer'', ''String'', ''relationship''],
     Bind ''Favorite'' [''Base'', ''Column'', ''Integer'', ''ForeignKey'', ''relationship''],
     Bind ''engine'' [''create_engine''],
     Expr [''Base'', ''engine'']]"

definition app_py :: "stmt list" where
  "app_py =
    [Import ''os'',
     ImportFrom ''flask'' [''Flask'', ''request'', ''jsonify'', ''url_for''],
     ImportFrom ''flask_migrate'' [''Migrate''],
     ImportFrom ''flask_swagger'' [''swagger''],
     ImportFrom ''flask_cors'' [''CORS''],
     ImportFrom ''utils'' [''APIException'', ''generate_sitemap''],
     ImportFrom ''admin'' [''setup_admin''],
     ImportFrom ''models'' [''db'', ''User''],
     Bind ''app'' [''Flask'', ''__name__''],
     Expr [''app''],
     Expr [''app''],
     Bind ''db_url'' [''os''],
     Expr [''db_url'', ''app''],
     Expr [''app''],
     Bind ''MIGRATE'' [''Migrate'', ''app'', ''db''],
     Expr [''db'', ''app''],
     Expr [''CORS'', ''app''],
     Expr [''setup_admin'', ''app''],
     Bind ''db'' [''SQLAlchemy'', ''app''],
     Bind ''User'' [''db''],
     Bind ''Planet'' [''db''],
     Bind ''Character'' [''db''],
     Bind ''Favorite'' [''db''],
     Bind ''get_people'' [''app''],
     Bind ''get_person'' [''app''],
     Bind ''get_planets'' [''app''],
     Bind ''get_planet'' [''app''],
     Bind ''get_users'' [''app''],
     Bind ''get_user_favorites'' [''app''],
     Bind ''add_favorite_planet'' [''app''],
     Bind ''add_favorite_people'' [''app''],
     Bind ''delete_favorite_planet'' [''app''],
     Bind ''delete_favorite_people'' [''app'']]"

fun stmt_binds :: "stmt \<Rightarrow> string list" where
  "stmt_binds (Import m) = [takeWhile (\<lambda>c. c \<noteq> CHR ''.'') m]"
| "stmt_binds (ImportFrom m xs) = xs"
| "stmt_binds (Bind x _) = [x]"
| "stmt_binds (Expr _) = []"

definition models_module :: "pyenv \<Rightarrow> fault + string list" where
  "models_module env = run_stmts (import_lib env) [''__name__''] models_py"

definition app_module :: "pyenv \<Rightarrow> fault + string list" where
  "app_module env =
     run_stmts (\<lambda>m. if m = ''models'' then models_module env else import_lib env m) [''__name__''] app_py"

lemma exec_stmt_binds:
  "exec_stmt imp ns s = Inr ns' \<Longrightarrow> set ns' \<subseteq> set ns \<union> set (stmt_binds s)"
  by (cases s) (auto simp: split: sum.splits option.splits)

lemma run_stmts_binds:
  "run_stmts imp ns ss = Inr ns' \<Longrightarrow> set ns' \<subseteq> set ns \<union> set (concat (map stmt_binds ss))"
proof (induction ss arbitrary: ns)
  case Nil
  then show ?case by simp
next
  case (Cons s ss)
  then obtain ns1 where s: "exec_stmt imp ns s = Inr ns1" and ss: "run_stmts imp ns1 ss = Inr ns'"
    by (auto split: sum.splits)
  from exec_stmt_binds [OF s] Cons.IH [OF ss] show ?case by auto
qed

lemma run_stmts_append:
  "run_stmts imp ns (xs @ ys) = (case run_stmts imp ns xs of Inl e \<Rightarrow> Inl e | Inr ns' \<Rightarrow> run_stmts imp ns' ys)"
  by (induction xs arbitrary: ns) (simp_all split: sum.split)

lemma models_module_no_db:
  "models_module env = Inr ns \<Longrightarrow> ''db'' \<notin> set ns"
  using run_stmts_binds [of "import_lib env" "[''__name__'']" models_py ns]
  by (auto simp: models_module_def models_py_def)

lemma import_db_from_models_fails:
  "\<exists>e. exec_stmt (\<lambda>m. if m = ''models'' then models_module env else import_lib env m) ns
          (ImportFrom ''models'' [''db'', ''User'']) = Inl e"
  using models_module_no_db [of env] by (cases "models_module env") auto

text \<open>C28: src/app.py cannot start, whatever libraries are installed: its
  import of db from models (line 11) raises, either because executing
  src/models.py raises first (its line 5 imports the misspelt SQLAlquemy) or
  because models.py binds no name db; and if an earlier import fails, that
  one raises.  The server is never reached.\<close>

theorem app_module_fails:
  "\<exists>e. app_module env = Inl e"
proof -
  let ?imp = "\<lambda>m. if m = ''models'' then models_module env else import_lib env m"
  obtain pre post where split: "app_py = pre @ ImportFrom ''models'' [''db'', ''User''] # post"
    by (rule that [of "take 7 app_py" "drop 8 app_py"]) (simp add: app_py_def)
  show ?thesis
  proof (cases "run_stmts ?imp [''__name__''] pre")
    case (Inl e)
    then show ?thesis by (simp add: app_module_def split run_stmts_append)
  next
    case (Inr ns)
    obtain e where "exec_stmt ?imp ns (ImportFrom ''models'' [''db'', ''User'']) = Inl e"
      using import_db_from_models_fails by blast
    with Inr show ?thesis by (simp add: app_module_def split run_stmts_append)
  qed
qed

end
