(* ===== verification/Json.thy ===== *)
theory Json
  imports Http Orm "HOL-Library.List_Lexorder" "HOL-Library.Char_ord"
begin

text \<open>
  The text Flask sends for a response.  \<open>jsonify\<close> and a handler's
  \<open>(jsonify(...), 404)\<close> are rendered by Flask's default JSON provider,
  which calls Python's \<open>json.dumps\<close> with \<open>ensure_ascii=True\<close> and
  \<open>sort_keys=True\<close>, with \<open>indent=2\<close> when the application runs in debug
  mode (\<open>app.run(debug=True)\<close>, app.py line 173) and with the compact
  separators \<open>(",", ":")\<close> otherwise, and appends a newline.  A string is
  written between double quotes; \<open>"\<close> and the backslash are escaped, the
  control characters with a short form (\<open>\b \f \n \r \t\<close>) use it, and every
  other character outside the printable ASCII range becomes \<open>\u00XX\<close> in
  lowercase hex (an Isabelle \<open>char\<close> is a code point below 256).  Object
  keys are written in Python's string order, which is the lexicographic order
  of code points (\<open>List_Lexorder\<close> over \<open>Char_ord\<close>).
\<close>

definition hex_digit :: "nat \<Rightarrow> char" where
  "hex_digit n = (if n < 10 then char_of (48 + n) else char_of (87 + n))"

definition py_escape_char :: "char \<Rightarrow> string" where
  "py_escape_char c =
     (let bs = CHR 0x5C; n = (of_char c :: nat) in
      if c = CHR 0x22 then [bs, CHR 0x22]
      else if c = bs then [bs, bs]
      else if n = 10 then [bs, CHR ''n'']
      else if n = 13 then [bs, CHR ''r'']
      else if n = 9 then [bs, CHR ''t'']
      else if n = 8 then [bs, CHR ''b'']
      else if n = 12 then [bs, CHR ''f'']
      else if 32 \<le> n \<and> n \<le> 126 then [c]
      else [bs, CHR ''u'', CHR ''0'', CHR ''0'', hex_digit (n div 16), hex_digit (n mod 16)])"

definition json_string :: "string \<Rightarrow> string" where
  "json_string s = CHR 0x22 # concat (map py_escape_char s) @ [CHR 0x22]"

definition json_newline :: "nat option \<Rightarrow> nat \<Rightarrow> string" where
  "json_newline ind lvl = (case ind of None \<Rightarrow> [] | Some k \<Rightarrow> CHR 0x0A # replicate (k * lvl) CHR '' '')"

fun py_join :: "string \<Rightarrow> string list \<Rightarrow> string" where
  "py_join sep [] = []"
| "py_join sep [x] = x"
| "py_join sep (x # y # zs) = x @ sep @ py_join sep (y # zs)"

definition json_block :: "nat option \<Rightarrow> nat \<Rightarrow> char \<Rightarrow> char \<Rightarrow> string list \<Rightarrow> string" where
  "json_block ind lvl opn cls items =
     (if items = [] then [opn, cls]
      else opn # json_newline ind (Suc lvl) @
           py_join (CHR '','' # json_newline ind (Suc lvl)) items @
           json_newline ind lvl @ [cls])"

fun json_dumps :: "nat option \<Rightarrow> nat \<Rightarrow> json \<Rightarrow> string" where
  "json_dumps ind lvl JNull = ''null''"
| "json_dumps ind lvl (JInt i) = py_str i"
| "json_dumps ind lvl (JStr s) = json_string s"
| "json_dumps ind lvl (JArr vs) = json_block ind lvl CHR ''['' CHR '']'' (map (json_dumps ind (Suc lvl)) vs)"
| "json_dumps ind lvl (JObj kvs) =
     json_block ind lvl CHR ''{'' CHR ''}''
       (map (\<lambda>(k, t). json_string k @ (case ind of None \<Rightarrow> '':'' | Some _ \<Rightarrow> '': '') @ t)
         (sort_key fst (map (\<lambda>(k, v). (k, json_dumps ind (Suc lvl) v)) kvs)))"

definition wire_char :: "char \<Rightarrow> bool" where
  "wire_char c \<longleftrightarrow> c = CHR 0x0A \<or> (32 \<le> (of_char c :: nat) \<and> (of_char c :: nat) \<le> 126)"

definition response_text :: "bool \<Rightarrow> response \<Rightarrow> string" where
  "response_text debug r = json_dumps (if debug then Some 2 else None) 0 (body r) @ [CHR 0x0A]"

subsection \<open>The text is printable ASCII\<close>

lemma wire_char_code:
  "32 \<le> n \<Longrightarrow> n \<le> 126 \<Longrightarrow> wire_char (char_of (n :: nat))"
  by (simp add: wire_char_def of_char_of)

lemma wire_char_lit [simp]:
  "wire_char CHR 0x0A" "wire_char CHR 0x22" "wire_char CHR 0x5C" "wire_char CHR '' ''"
  "wire_char CHR '',''" "wire_char CHR '':''" "wire_char CHR ''-''"
  "wire_char CHR ''['' " "wire_char CHR '']''" "wire_char CHR ''{''" "wire_char CHR ''}''"
  "wire_char CHR ''n''" "wire_char CHR ''r''" "wire_char CHR ''t''" "wire_char CHR ''b''"
  "wire_char CHR ''f''" "wire_char CHR ''u''" "wire_char CHR ''0''" "wire_char CHR ''l''"
  by (simp_all add: wire_char_def)

lemma hex_digit_wire: "n < 16 \<Longrightarrow> wire_char (hex_digit n)"
  by (simp add: hex_digit_def wire_char_code)

lemma py_escape_char_wire: "list_all wire_char (py_escape_char c)"
proof -
  have "(of_char c :: nat) div 16 < 16" using nat_of_char_less_256 [of c] by (simp add: div_less_iff_less_mult)
  moreover have "32 \<le> (of_char c :: nat) \<Longrightarrow> (of_char c :: nat) \<le> 126 \<Longrightarrow> wire_char c"
    by (simp add: wire_char_def)
  ultimately show ?thesis by (simp add: py_escape_char_def Let_def hex_digit_wire)
qed

lemma json_string_wire: "list_all wire_char (json_string s)"
  using py_escape_char_wire by (simp add: json_string_def list_all_iff)

lemma nat_digits_wire: "list_all wire_char (nat_digits n)"
proof (induction n rule: nat_digits.induct)
  case (1 n)
  then show ?case by (simp add: nat_digits.simps [of n] wire_char_code)
qed

lemma py_str_wire: "list_all wire_char (py_str i)"
  by (simp add: py_str_def nat_digits_wire)

lemma json_newline_wire: "list_all wire_char (json_newline ind lvl)"
  by (auto simp: json_newline_def list_all_iff split: option.split)

lemma py_join_wire:
  "list_all wire_char sep \<Longrightarrow> \<forall>x \<in> set xs. list_all wire_char x \<Longrightarrow> list_all wire_char (py_join sep xs)"
  by (induction sep xs rule: py_join.induct) simp_all

lemma json_block_wire:
  assumes "wire_char opn" and "wire_char cls" and "\<forall>x \<in> set items. list_all wire_char x"
  shows "list_all wire_char (json_block ind lvl opn cls items)"
  using assms by (simp add: json_block_def json_newline_wire py_join_wire)

lemma json_dumps_wire: "list_all wire_char (json_dumps ind lvl v)"
proof (induction ind lvl v rule: json_dumps.induct)
  case (4 ind lvl vs)
  then show ?case by (simp add: json_block_wire)
next
  case (5 ind lvl kvs)
  have "\<forall>x \<in> set (map (\<lambda>(k, t). json_string k @ (case ind of None \<Rightarrow> '':'' | Some _ \<Rightarrow> '': '') @ t)
            (sort_key fst (map (\<lambda>(k, v). (k, json_dumps ind (Suc lvl) v)) kvs))). list_all wire_char x"
    using 5 by (auto simp: json_string_wire split: option.split)
  then show ?case by (simp add: json_block_wire)
qed (simp_all add: json_string_wire py_str_wire)

text \<open>Every response body Flask sends, in debug mode or not, consists of
  printable ASCII characters and newlines only, whatever the database holds:
  json.dumps with ensure_ascii escapes quotes, backslashes, control
  characters and every non-ASCII character.\<close>

lemma response_text_ascii:
  "list_all wire_char (response_text debug r)"
  by (simp add: response_text_def json_dumps_wire)

subsection \<open>Key order does not matter\<close>

lemma map_fst_render:
  "map fst (map (\<lambda>(k, v). (k, f v)) kvs) = map fst kvs"
  by (induction kvs) auto

text \<open>The text of a JSON object response does not depend on the order in
  which the handler writes its keys (sort_keys=True): two dict literals with
  the same distinct keys and values give the same bytes.\<close>

lemma response_text_key_order:
  assumes "mset kvs = mset kvs'" and "distinct (map fst kvs)"
  shows "response_text debug (jsonify (JObj kvs)) = response_text debug (jsonify (JObj kvs'))"
proof -
  let ?ind = "if debug then Some 2 else None"
  let ?r = "\<lambda>kvs. map (\<lambda>(k, v). (k, json_dumps ?ind (Suc 0) v)) kvs"
  have m: "mset (?r kvs) = mset (?r kvs')" using assms(1) by (simp only: mset_map)
  have "distinct (map fst (?r kvs))" using assms(2) by (simp only: map_fst_render)
  then have "inj_on fst (set (?r kvs))" by (metis distinct_map)
  with m have "sort_key fst (?r kvs) = sort_key fst (?r kvs')" by (rule sort_key_eq_sort_key)
  then show ?thesis by (simp add: response_text_def)
qed

end
