(* ===== verification/Spec2Isabelle.thy ===== *)
theory Spec2Isabelle
  imports Race Storage Config Rowid Startup Json
begin

text \<open>
  \<^bold>\<open>A verification model of the Star Wars REST API\<close>
  (\<^verbatim>\<open>src/app.py\<close>, \<^verbatim>\<open>src/models.py\<close>).

  \<^bold>\<open>The program.\<close>  A Flask application over SQLAlchemy and SQLite.  Four
  tables (user, planet, character, favorite) are declared twice: by the classes
  of \<^verbatim>\<open>src/models.py\<close> (lines 12--51), whose \<open>create_all\<close> builds
  \<^verbatim>\<open>starwars_blog.db\<close>, and by the classes of \<^verbatim>\<open>src/app.py\<close> (lines 33--70),
  which the route handlers query.  Ten route handlers (\<^verbatim>\<open>src/app.py\<close> lines
  73--170) read the catalogue tables and read and write the favorite table;
  every request is served on its own, one statement sequence ending in one
  commit.

  \<^bold>\<open>The theories.\<close>
  \<^item> \<open>Prelude\<close>: the key type, the \<open>db_simps\<close> collection, and lemmas on
    row lists with ascending keys (search by key, least matching key, removal
    by key as \<open>remove1\<close> and as a multiset difference).
  \<^item> \<open>Schema\<close>: one record per ORM class of \<^verbatim>\<open>app.py\<close> (\<open>user\<close>,
    \<open>planet\<close>, \<open>character\<close>, \<open>favorite\<close>), the database record \<open>db\<close>
    of four tables in rowid order, the column declarations of both files as
    data (\<open>app_schema\<close>, \<open>models_schema\<close>), and \<open>wf_db\<close>, what the
    declared constraints (primary keys, UNIQUE) guarantee.
  \<^item> \<open>Orm\<close>: the SQLAlchemy/SQLite operations the handlers are built from:
    \<open>query_get\<close> (\<open>Model.query.get\<close>), \<open>query_get_arg\<close> (\<open>get\<close> of a
    query-string value, through \<open>sql_int\<close>, SQLite's numeric affinity),
    \<open>filter_by_first\<close>, \<open>insert_row\<close> with \<open>next_rowid\<close> (max rowid + 1),
    \<open>delete_row\<close>, and the relationships \<open>user_favorites\<close>,
    \<open>favorite_planet\<close>, \<open>favorite_character\<close>.
  \<^item> \<open>Http\<close>: JSON values, \<open>jsonify\<close>, responses with a status, and
    \<open>fault\<close> for an exception that escapes a handler (Flask's 500).
  \<^item> \<open>Catalogue\<close>: \<open>get_people\<close>, \<open>get_person\<close>, \<open>get_planets\<close>,
    \<open>get_planet\<close>, \<open>get_users\<close> (app.py 73--110), each a function of the
    database.
  \<^item> \<open>Favorites\<close>: \<open>get_user_favorites\<close> with its loop \<open>fav_entries\<close>,
    \<open>add_favorite_planet\<close>, \<open>add_favorite_people\<close>,
    \<open>delete_favorite_planet\<close>, \<open>delete_favorite_people\<close> (app.py 112--170),
    each \<open>db \<Rightarrow> ... \<Rightarrow> outcome \<times> db\<close>, every guard and early return of the
    source a branch; and the invariant \<open>favorites_inv\<close>.
  \<^item> \<open>Api\<close>: \<open>request\<close>, one constructor per route; \<open>handle\<close>, the
    dispatch; \<open>run\<close>, a sequence of requests; \<open>reachable_from\<close>, the
    databases the API produces from a seed; and the abstract specification
    \<open>abs_step\<close> over the multiset \<open>fav_abs\<close> of (user, planet, character)
    triples.
  \<^item> \<open>Race\<close>: concurrent requests (spec section 5).  Each writing handler
    is split into its read phase \<open>prepare\<close> (the SELECTs, with every 404 and
    fault branch) and its write phase \<open>commit_pending\<close> (INSERT or DELETE
    and commit); a configuration is the database and one \<open>thread\<close> per
    request in flight, and \<open>conc_step\<close> lets any unfinished request take
    its next phase.
  \<^item> \<open>Storage\<close>: the tables a handler runs against.
    \<open>tables_queried\<close> lists the tables each handler's SELECTs read, in
    order and as far as they run; \<open>select_fault\<close> is SQLite's
    \<open>no such table\<close>/\<open>no such column\<close> verdict against the column
    declarations the tables were created from; \<open>handle_on\<close> serves a
    request against such tables; \<open>create_all\<close> is SQLAlchemy's
    \<open>create_all\<close>, which adds only the tables a database lacks.
  \<^item> \<open>Config\<close>: the database URI of app.py lines 14--23,
    \<open>database_uri\<close>, with Python's \<open>str.replace\<close> as \<open>py_replace\<close>
    (a \<^theory_text>\<open>function\<close> terminating by the length of the unread input).
  \<^item> \<open>Rowid\<close>: SQLite's choice of a new rowid on signed 64-bit words,
    \<open>sqlite_new_rowid\<close>, with its fallback at the largest rowid.
  \<^item> \<open>Startup\<close>: the module-level statements of app.py and models.py
    (\<open>app_py\<close>, \<open>models_py\<close>) as Python executes them on import, over an
    environment \<open>pyenv\<close> of installed libraries and the names they export.
  \<^item> \<open>Json\<close>: the body text Flask writes for a response,
    \<open>response_text\<close>: Python's \<open>json.dumps\<close> with \<open>ensure_ascii\<close> and
    \<open>sort_keys\<close> (\<open>json_dumps\<close>, \<open>py_escape_char\<close>), indented in debug
    mode, compact otherwise.
  \<^item> this theory: scenarios that span several requests, and the witnesses.

  \<^bold>\<open>What is proved.\<close>  Each handler's result on every
  branch: a stored character or planet is answered with exactly its stored
  fields and an absent key with its 404 message (C14, C15); the add endpoints
  insert one row with a fresh rowid or answer 404 (C1, C2, C8, C9); the delete
  endpoints remove the oldest matching row, answer 404, or raise
  AttributeError for an unknown user (C3, C4, C7, C10); the favorites listing
  has one entry per row of the user, named by its planet or character, or
  answers 404 (C11, C12). Across requests: the favorites invariant holds in
  every reachable database (C6, rule induction over
  \<open>reachable_from\<close>); a run of requests refines the abstract
  multiset specification (C5); exceptions arise only from the delete
  endpoints' unknown user (C13); an add is listed at the end of the user's
  favorites (C16); an add repeated adds a duplicate (C17); a delete repeated
  after the last match answers 404 (C18); an add followed by the matching
  delete gives back the database (C19); a successful delete leaves one
  matching row fewer (C29); after any run the listings show the seeded tables
  in key order (C27); n requests raise the next rowid by at most n (C22). The
  configuration rewrites a postgres:// URL to postgresql:// (C20) and no
  DATABASE_URL yields a URI containing postgres:// (C21). Under concurrency:
  the favorites invariant holds under every interleaving (C23); two deletes of
  the one matching row that both read before either commits both answer 200
  (C24), unlike the serial case (C18); interleavings of requests without
  deletes give the multiset of the serial abstract run (C25). Against tables
  created from models.py's classes only the two planet endpoints work and
  every other request raises OperationalError (C26). Whatever libraries are
  installed, app.py raises during its imports and never starts (C28).

  Supporting lemmas, not claims of their own, tie the models together: the
  two-phase handlers of \<open>Race\<close> are the sequential handler when
  nothing intervenes (\<open>handle_phases\<close>), every interleaving is
  finite and can run to completion (\<open>conc_step_wf\<close>,
  \<open>conc_can_complete\<close>); SQLite's 64-bit rowid is
  \<open>next_rowid\<close> while that fits
  (\<open>sqlite_new_rowid_refines\<close>); tables created from app.py's
  declarations serve every request by its handler
  (\<open>handle_on_app_schema\<close>) and a file without tables fails every
  request with no such table (\<open>handle_on_no_tables\<close>); the decimal
  text of a key finds the row the key finds
  (\<open>query_get_arg_py_str\<close>); the rendered body is printable ASCII
  and independent of key order (\<open>response_text_ascii\<close>,
  \<open>response_text_key_order\<close>).

  \<^bold>\<open>Choices and bounds.\<close>  Python ints and SQL INTEGER keys are \<open>int\<close>
  in the handlers; \<open>Rowid\<close> shows that this is exact for the rowids SQLite
  assigns until a table holds the rowid \<open>2^63 - 1\<close>, beyond which SQLite
  picks a random unused rowid, which the model does not determine.  No loop
  needs fuel: the loops (\<open>fav_entries\<close>, the module bodies, the JSON
  printer) are structural.  A query-string user_id is read by
  \<open>sql_int\<close> as an optional sign and decimal digits; other spellings SQLite
  would also accept as numbers (surrounding spaces, \<^verbatim>\<open>1.0\<close>) are not
  modelled and match no row here.  The model follows the default SQLite
  backend; on PostgreSQL (\<^verbatim>\<open>DATABASE_URL\<close>) a non-numeric user_id raises
  instead of matching nothing.

  \<^bold>\<open>Not modelled.\<close>  Start-up is modelled only as far as which names
  are bound and which statement raises: what Migrate, init_app, CORS,
  setup_admin and create_all do to the application and the database file is
  I/O of the libraries; \<^verbatim>\<open>utils\<close> and \<^verbatim>\<open>admin\<close> are not in the
  repository and appear only as names an environment may provide.  The two
  \<^verbatim>\<open>__main__\<close> blocks are modelled only through the debug flag they
  pass (\<open>response_text\<close>); the HTML page Flask sends for a 500, the HTTP
  headers and the commented-out diagram code are not modelled.  SQLite's
  affinity also turns a query-string value with a decimal point or an
  exponent (\<^verbatim>\<open>1.0\<close>, \<^verbatim>\<open>1e0\<close>) or surrounding spaces into a number,
  compared as an IEEE double; \<open>sql_int\<close> reads only sign and digits, and
  such a value matches no row in the model (a faithful model would need
  binary floating point).  Since app.py as written does
  not start (C28), the handlers are modelled as they behave once its imports
  are repaired.

  \<^bold>\<open>Where the model stops.\<close>  Every statement of app.py and models.py
  is a definition here except the two \<^verbatim>\<open>__main__\<close> blocks (app.py
  172--178): they call Werkzeug's server loop, and they are unreachable as
  written, since the module raises at line 11 (C28).  The concurrency model
  runs on the tables app.py declares; on models.py's tables every writing
  request already fails in its read phase (C26), so interleaving adds nothing
  there.
\<close>

subsection \<open>A seeded database\<close>

definition luke :: user where
  "luke = \<lparr>uid = 1, username = ''luke'', email = ''luke@rebellion.org'', password = ''x-wing'',
           firstname = Some ''Luke'', lastname = Some ''Skywalker'', subscription_date = None\<rparr>"

definition tatooine :: planet where
  "tatooine = \<lparr>pid = 1, pname = ''Tatooine'', climate = Some ''arid'', terrain = Some ''desert'',
               population = Some 200000\<rparr>"

definition hoth :: planet where
  "hoth = \<lparr>pid = 2, pname = ''Hoth'', climate = Some ''frozen'', terrain = Some ''tundra'',
           population = None\<rparr>"

definition leia :: character where
  "leia = \<lparr>cid = 1, cname = ''Leia Organa'', species = Some ''Human'', homeworld = Some ''Alderaan'',
           affiliation = Some ''Rebel Alliance''\<rparr>"

definition fav1 :: favorite where
  "fav1 = \<lparr>fid = 1, user_id = 1, planet_id = Some 1, character_id = None\<rparr>"

definition fav2 :: favorite where
  "fav2 = \<lparr>fid = 2, user_id = 1, planet_id = None, character_id = Some 1\<rparr>"

definition fav3 :: favorite where
  "fav3 = \<lparr>fid = 3, user_id = 1, planet_id = Some 1, character_id = None\<rparr>"

definition demo_db :: db where
  "demo_db = \<lparr>users = [luke], planets = [tatooine, hoth], characters = [leia],
              favorites = [fav1, fav2, fav3]\<rparr>"

definition adds_demo :: "request list" where
  "adds_demo = [PostFavoritePlanet 2 (Some ''1''), PostFavoritePeople 1 (Some ''1'')]"

definition installed_env :: pyenv where
  "installed_env = map_of
    [(''os'', []), (''sys'', []),
     (''sqlalchemy'', [''Column'', ''Integer'', ''String'', ''DateTime'', ''ForeignKey'', ''Text'', ''create_engine'']),
     (''sqlalchemy.orm'', [''relationship'', ''declarative_base'']),
     (''flask_sqlalchemy'', [''SQLAlchemy'']), (''eralchemy2'', [''render_er'']), (''datetime'', [''datetime'']),
     (''flask'', [''Flask'', ''request'', ''jsonify'', ''url_for'']), (''flask_migrate'', [''Migrate'']),
     (''flask_swagger'', [''swagger'']), (''flask_cors'', [''CORS'']),
     (''utils'', [''APIException'', ''generate_sitemap'']), (''admin'', [''setup_admin''])]"

lemmas demo_defs = luke_def tatooine_def hoth_def leia_def fav1_def fav2_def fav3_def demo_db_def

lemmas eval_defs = demo_defs query_get_arg_def sql_int_def is_digit_def query_get_def
  wf_db_def wf_catalogue_def favorites_inv_def fav_exactly_one_def fav_refs_ok_def
  next_rowid_def

subsection \<open>Scenarios across requests\<close>

text \<open>C16: After a successful POST /favorite/planet/<id>, GET /users/favorites for the same user_id returns the user's earlier entries followed by {planet: name} of the planet just added.\<close>

theorem add_planet_then_listed:
  assumes "query_get_arg uid (users d) a = Some u" and "query_get pid (planets d) p = Some pl"
  shows "get_user_favorites (snd (add_favorite_planet d p a)) a =
    jsonify (JArr (fav_entries d (user_favorites d u) @ [JObj [(''planet'', JStr (pname pl))]]))"
proof -
  from assms(2) have "pid pl = p" by blast
  with assms show ?thesis
    by (simp add: add_favorite_planet_def insert_row_def get_user_favorites_def
          user_favorites_def fav_entries_append favorite_planet_def favorite_character_def)
qed

text \<open>C17: Adding the same planet twice for the same user leaves two more copies of that favorite than before: the handler has no duplicate check.\<close>

theorem add_planet_twice_duplicates:
  assumes "query_get_arg uid (users d) a = Some u" and "query_get pid (planets d) p = Some pl"
  shows "count (fav_abs (snd (add_favorite_planet (snd (add_favorite_planet d p a)) p a))) (uid u, Some p, None) =
         count (fav_abs d) (uid u, Some p, None) + 2"
proof -
  let ?d1 = "snd (add_favorite_planet d p a)"
  have cat: "users ?d1 = users d" "planets ?d1 = planets d"
    using handle_catalogue [of d "PostFavoritePlanet p a"] by simp_all
  have "fav_abs ?d1 = add_mset (uid u, Some p, None) (fav_abs d)"
    using assms by (simp add: add_favorite_planet_refines)
  moreover have "fav_abs (snd (add_favorite_planet ?d1 p a)) = add_mset (uid u, Some p, None) (fav_abs ?d1)"
    using assms cat by (simp add: add_favorite_planet_refines)
  ultimately show ?thesis by simp
qed

text \<open>C18: When exactly one favorite row matches (user, planet), the first DELETE answers 200 and removes it, and a second identical DELETE answers 404: deletion is not idempotent.\<close>

theorem delete_planet_twice_not_found:
  assumes "query_get_arg uid (users d) a = Some u"
    and "filter (\<lambda>f. user_id f = uid u \<and> planet_id f = Some p) (favorites d) = [f]"
  shows "delete_favorite_planet d p a =
      (Inr (jsonify (message ''Favorite planet deleted successfully'')),
       d\<lparr>favorites := delete_row fid f (favorites d)\<rparr>) \<and>
    fst (delete_favorite_planet (snd (delete_favorite_planet d p a)) p a) =
      Inr (with_status (jsonify (message ''User or Favorite not found'')) 404)"
proof -
  let ?M = "\<lambda>f. user_id f = uid u \<and> planet_id f = Some p"
  have first: "filter_by_first ?M (favorites d) = Some f"
    using assms(2) by (simp add: filter_by_first_def find_eq_filter_head)
  have "filter ?M (delete_row fid f (favorites d)) = filter (\<lambda>r. fid r \<noteq> fid f) (filter ?M (favorites d))"
    by (simp add: delete_row_def filter_filter conj_commute)
  also have "\<dots> = []" using assms(2) by simp
  finally have "filter_by_first ?M (delete_row fid f (favorites d)) = None"
    by (simp add: filter_by_first_def find_eq_filter_head)
  with assms(1) first show ?thesis by (simp add: delete_favorite_planet_def)
qed

text \<open>C19: Round trip.  For a known user and an existing planet (or character) of which the user has no favorite yet, POST /favorite/planet/<id> followed by DELETE /favorite/planet/<id> with the same arguments answers 200 and gives back exactly the database before the POST, and likewise for /favorite/people/<id>: the delete finds the row the add inserted, and only that row.\<close>

theorem add_then_delete_roundtrip:
  assumes u: "query_get_arg uid (users d) a = Some u"
    and pl: "query_get pid (planets d) p = Some pl"
    and no_p: "\<forall>f \<in> set (favorites d). \<not> (user_id f = uid u \<and> planet_id f = Some p)"
    and ch: "query_get cid (characters d) c = Some chr"
    and no_c: "\<forall>f \<in> set (favorites d). \<not> (user_id f = uid u \<and> character_id f = Some c)"
  shows "delete_favorite_planet (snd (add_favorite_planet d p a)) p a =
      (Inr (jsonify (message ''Favorite planet deleted successfully'')), d) \<and>
    delete_favorite_people (snd (add_favorite_people d c a)) c a =
      (Inr (jsonify (message ''Favorite character deleted successfully'')), d)"
proof -
  from pl have "pid pl = p" by blast
  moreover from ch have "cid chr = c" by blast
  ultimately show ?thesis
    using u pl ch no_p no_c
    by (simp add: add_favorite_planet_def add_favorite_people_def delete_favorite_planet_def
        delete_favorite_people_def insert_row_def filter_by_first_snoc delete_row_snoc_fresh)
qed

text \<open>A favorite row with both planet_id and character_id set, which the schema allows and spec section 3 says must not exist, is listed by GET /users/favorites as two entries, a planet and a character.\<close>

lemma fav_entries_both_targets:
  "fav_entries demo_db [\<lparr>fid = 4, user_id = 1, planet_id = Some 1, character_id = Some 1\<rparr>] =
   [JObj [(''planet'', JStr ''Tatooine'')], JObj [(''character'', JStr ''Leia Organa'')]]"
  by (simp add: eval_defs favorite_planet_def favorite_character_def)


text \<open>C27: After any sequence of requests, GET /people, GET /planets and GET /users
  list the names of all rows of the seeded tables, one per row and in
  primary-key order: the API never writes the catalogue tables (spec section
  8, listing length equals row count).\<close>

theorem listings_after_run:
  "get_people (snd (run d rs)) = jsonify (JArr (map (\<lambda>c. JStr (cname c)) (characters d))) \<and>
   get_planets (snd (run d rs)) = jsonify (JArr (map (\<lambda>p. JStr (pname p)) (planets d))) \<and>
   get_users (snd (run d rs)) = jsonify (JArr (map (\<lambda>u. JStr (username u)) (users d)))"
  using run_catalogue [of d rs] by (simp add: get_people_def get_planets_def get_users_def)

text \<open>C29: When DELETE /favorite/planet/<id> answers 200, the number of favorite
  rows matching (user, planet) is one less than before (spec section 8).\<close>

theorem delete_planet_one_fewer:
  assumes "wf_db d" and "query_get_arg uid (users d) a = Some u"
    and "fst (delete_favorite_planet d p a) = Inr (jsonify (message ''Favorite planet deleted successfully''))"
  shows "length (filter (\<lambda>f. user_id f = uid u \<and> planet_id f = Some p) (favorites (snd (delete_favorite_planet d p a)))) =
         length (filter (\<lambda>f. user_id f = uid u \<and> planet_id f = Some p) (favorites d)) - 1"
proof -
  let ?M = "\<lambda>f. user_id f = uid u \<and> planet_id f = Some p"
  obtain f where f: "filter_by_first ?M (favorites d) = Some f"
    using assms(2,3) by (auto simp: delete_favorite_planet_def jsonify_def with_status_def split: option.splits)
  then have del: "snd (delete_favorite_planet d p a) = d\<lparr>favorites := delete_row fid f (favorites d)\<rparr>"
    using assms(2) by (simp add: delete_favorite_planet_def)
  from f have mem: "f \<in> set (filter ?M (favorites d))" by auto
  from assms(1) have "distinct (map fid (filter ?M (favorites d)))"
    by (auto simp: wf_db_def)
  then have "length (filter (\<lambda>r. fid r \<noteq> fid f) (filter ?M (favorites d))) = length (filter ?M (favorites d)) - 1"
    using mem by (rule length_filter_key_neq)
  moreover have "filter ?M (delete_row fid f (favorites d)) = filter (\<lambda>r. fid r \<noteq> fid f) (filter ?M (favorites d))"
    by (simp add: delete_row_def filter_filter conj_commute)
  ultimately show ?thesis using del by simp
qed

text \<open>With the libraries installed as they are published, start-up stops at
  models.py line 5; were SQLAlquemy a name of flask_sqlalchemy, it would stop
  at app.py line 11, since models.py defines no db.\<close>

lemma app_module_installed_env:
  "app_module installed_env =
     Inl (ImportError (''cannot import name '' @ py_quote ''SQLAlquemy'' @ '' from '' @ py_quote ''flask_sqlalchemy''))"
  by (simp add: app_module_def models_module_def app_py_def models_py_def installed_env_def import_lib_def
      read_names_def)

lemma app_module_misspelt_env:
  "app_module (installed_env(''flask_sqlalchemy'' \<mapsto> [''SQLAlchemy'', ''SQLAlquemy''])) =
     Inl (ImportError (''cannot import name '' @ py_quote ''db'' @ '' from '' @ py_quote ''models''))"
  by (simp add: app_module_def models_module_def app_py_def models_py_def installed_env_def import_lib_def
      read_names_def)

text \<open>What GET /people/1 sends for the seeded character when the application runs
  without debug: the keys in sorted order, not in the order get_person writes
  them.\<close>

lemma get_person_wire_text:
  \<open>response_text False (get_person demo_db 1) =
   ''{"affiliation":"Rebel Alliance","homeworld":"Alderaan","name":"Leia Organa","species":"Human"}'' @ [CHR 0x0A]\<close>
  by (simp add: get_person_def query_get_def demo_db_def leia_def) code_simp

subsection \<open>Witnesses\<close>

lemma add_favorite_planet_found_witness:
  "query_get_arg uid (users demo_db) (Some ''1'') = Some luke \<and>
   query_get pid (planets demo_db) 2 = Some hoth \<and>
   add_favorite_planet demo_db 2 (Some ''1'') =
     (Inr (jsonify (message ''Favorite planet added successfully'')),
      demo_db\<lparr>favorites := favorites demo_db @
        [\<lparr>fid = next_rowid fid (favorites demo_db), user_id = uid luke, planet_id = Some 2, character_id = None\<rparr>]\<rparr>)"
proof -
  have h1: "query_get_arg uid (users demo_db) (Some ''1'') = Some luke" by (simp add: eval_defs)
  have h2: "query_get pid (planets demo_db) 2 = Some hoth" by (simp add: eval_defs)
  show ?thesis using h1 h2 add_favorite_planet_found [OF h1 h2] by blast
qed

lemma add_favorite_planet_not_found_witness:
  "query_get pid (planets demo_db) 7 = None \<and>
   add_favorite_planet demo_db 7 (Some ''1'') =
     (Inr (with_status (jsonify (message ''User or Planet not found'')) 404), demo_db)"
proof -
  have h: "query_get_arg uid (users demo_db) (Some ''1'') = None \<or> query_get pid (planets demo_db) 7 = None"
    by (simp add: eval_defs)
  have "query_get pid (planets demo_db) 7 = None" by (simp add: eval_defs)
  then show ?thesis using add_favorite_planet_not_found [OF h] by blast
qed

lemma delete_favorite_planet_oldest_witness:
  "wf_db demo_db \<and> query_get_arg uid (users demo_db) (Some ''1'') = Some luke \<and>
   fav1 \<in> set (favorites demo_db) \<and> user_id fav1 = uid luke \<and> planet_id fav1 = Some 1 \<and>
   delete_favorite_planet demo_db 1 (Some ''1'') =
     (Inr (jsonify (message ''Favorite planet deleted successfully'')),
      demo_db\<lparr>favorites := [fav2, fav3]\<rparr>)"
proof -
  have h1: "wf_db demo_db" by (simp add: eval_defs)
  have h2: "query_get_arg uid (users demo_db) (Some ''1'') = Some luke" by (simp add: eval_defs)
  have h3: "fav1 \<in> set (favorites demo_db)" by (simp add: demo_db_def)
  have h4: "user_id fav1 = uid luke" by (simp add: eval_defs)
  have h5: "planet_id fav1 = Some 1" by (simp add: fav1_def)
  have h6: "\<forall>g \<in> set (favorites demo_db). user_id g = uid luke \<and> planet_id g = Some 1 \<longrightarrow> fid fav1 \<le> fid g"
    by (simp add: eval_defs)
  have r: "remove1 fav1 (favorites demo_db) = [fav2, fav3]" by (simp add: demo_db_def)
  show ?thesis using h1 h2 h3 h4 h5 h6 delete_favorite_planet_oldest [OF h1 h2 h3 h4 h5 h6] r by simp
qed

lemma delete_favorite_planet_unknown_user_witness:
  "query_get_arg uid (users demo_db) (Some ''42'') = None \<and>
   delete_favorite_planet demo_db 1 (Some ''42'') = (Inl (AttributeError ''id''), demo_db) \<and>
   delete_favorite_people demo_db 1 (Some ''42'') = (Inl (AttributeError ''id''), demo_db)"
proof -
  have h: "query_get_arg uid (users demo_db) (Some ''42'') = None" by (simp add: eval_defs)
  show ?thesis using h delete_favorite_planet_unknown_user [OF h] by blast
qed

lemma run_refines_witness:
  "favorites_inv demo_db \<and>
   fav_abs (snd (run demo_db [PostFavoritePlanet 2 (Some ''1''), DeleteFavoritePlanet 1 (Some ''1'')])) =
   abs_run demo_db [PostFavoritePlanet 2 (Some ''1''), DeleteFavoritePlanet 1 (Some ''1'')] (fav_abs demo_db)"
proof -
  have h: "favorites_inv demo_db" by (simp add: eval_defs)
  show ?thesis using h run_refines [OF h] by blast
qed

lemma reachable_favorites_inv_witness:
  "reachable_from demo_db (snd (handle demo_db (PostFavoritePlanet 2 (Some ''1'')))) \<and>
   favorites_inv demo_db \<and> favorites_inv (snd (handle demo_db (PostFavoritePlanet 2 (Some ''1''))))"
proof -
  have h1: "reachable_from demo_db (snd (handle demo_db (PostFavoritePlanet 2 (Some ''1''))))"
    by (rule reachable_from.serve [OF reachable_from.seed])
  have h2: "favorites_inv demo_db" by (simp add: eval_defs)
  show ?thesis using h1 h2 reachable_favorites_inv [OF h1 h2] by blast
qed

lemma delete_favorite_planet_no_row_witness:
  "query_get_arg uid (users demo_db) (Some ''1'') = Some luke \<and>
   delete_favorite_planet demo_db 2 (Some ''1'') =
     (Inr (with_status (jsonify (message ''User or Favorite not found'')) 404), demo_db) \<and>
   delete_favorite_people demo_db 5 (Some ''1'') =
     (Inr (with_status (jsonify (message ''User or Favorite not found'')) 404), demo_db)"
proof -
  have h1: "query_get_arg uid (users demo_db) (Some ''1'') = Some luke" by (simp add: eval_defs)
  have h2: "\<forall>g \<in> set (favorites demo_db). \<not> (user_id g = uid luke \<and> planet_id g = Some 2)"
    by (simp add: eval_defs)
  have h3: "\<forall>g \<in> set (favorites demo_db). \<not> (user_id g = uid luke \<and> character_id g = Some 5)"
    by (simp add: eval_defs)
  show ?thesis using h1 h2 h3 delete_favorite_planet_no_row [OF h1 h2 h3] by blast
qed

lemma add_favorite_people_found_witness:
  "query_get_arg uid (users demo_db) (Some ''+1'') = Some luke \<and>
   query_get cid (characters demo_db) 1 = Some leia \<and>
   add_favorite_people demo_db 1 (Some ''+1'') =
     (Inr (jsonify (message ''Favorite character added successfully'')),
      demo_db\<lparr>favorites := favorites demo_db @
        [\<lparr>fid = next_rowid fid (favorites demo_db), user_id = uid luke, planet_id = None, character_id = Some 1\<rparr>]\<rparr>)"
proof -
  have h1: "query_get_arg uid (users demo_db) (Some ''+1'') = Some luke" by (simp add: eval_defs)
  have h2: "query_get cid (characters demo_db) 1 = Some leia" by (simp add: eval_defs)
  show ?thesis using h1 h2 add_favorite_people_found [OF h1 h2] by blast
qed

lemma add_favorite_people_not_found_witness:
  "query_get cid (characters demo_db) 999 = None \<and>
   add_favorite_people demo_db 999 (Some ''1'') =
     (Inr (with_status (jsonify (message ''User or Character not found'')) 404), demo_db)"
proof -
  have h: "query_get_arg uid (users demo_db) (Some ''1'') = None \<or> query_get cid (characters demo_db) 999 = None"
    by (simp add: eval_defs)
  have "query_get cid (characters demo_db) 999 = None" by (simp add: eval_defs)
  then show ?thesis using add_favorite_people_not_found [OF h] by blast
qed

lemma delete_favorite_people_oldest_witness:
  "wf_db demo_db \<and> query_get_arg uid (users demo_db) (Some ''1'') = Some luke \<and>
   fav2 \<in> set (favorites demo_db) \<and> user_id fav2 = uid luke \<and> character_id fav2 = Some 1 \<and>
   delete_favorite_people demo_db 1 (Some ''1'') =
     (Inr (jsonify (message ''Favorite character deleted successfully'')),
      demo_db\<lparr>favorites := [fav1, fav3]\<rparr>)"
proof -
  have h1: "wf_db demo_db" by (simp add: eval_defs)
  have h2: "query_get_arg uid (users demo_db) (Some ''1'') = Some luke" by (simp add: eval_defs)
  have h3: "fav2 \<in> set (favorites demo_db)" by (simp add: demo_db_def)
  have h4: "user_id fav2 = uid luke" by (simp add: eval_defs)
  have h5: "character_id fav2 = Some 1" by (simp add: fav2_def)
  have h6: "\<forall>g \<in> set (favorites demo_db). user_id g = uid luke \<and> character_id g = Some 1 \<longrightarrow> fid fav2 \<le> fid g"
    by (simp add: eval_defs)
  have r: "remove1 fav2 (favorites demo_db) = [fav1, fav3]" by (simp add: eval_defs)
  show ?thesis using h1 h2 h3 h4 h5 h6 delete_favorite_people_oldest [OF h1 h2 h3 h4 h5 h6] r by simp
qed

lemma get_user_favorites_one_per_row_witness:
  "favorites_inv demo_db \<and> query_get_arg uid (users demo_db) (Some ''1'') = Some luke \<and>
   get_user_favorites demo_db (Some ''1'') =
     jsonify (JArr [JObj [(''planet'', JStr ''Tatooine'')], JObj [(''character'', JStr ''Leia Organa'')],
                    JObj [(''planet'', JStr ''Tatooine'')]])"
proof -
  have h1: "favorites_inv demo_db" by (simp add: eval_defs)
  have h2: "query_get_arg uid (users demo_db) (Some ''1'') = Some luke" by (simp add: eval_defs)
  show ?thesis using h1 h2 get_user_favorites_one_per_row [OF h1 h2] by (simp add: eval_defs)
qed

lemma get_user_favorites_unknown_user_witness:
  "query_get_arg uid (users demo_db) (Some ''leia'') = None \<and>
   get_user_favorites demo_db (Some ''leia'') = with_status (jsonify (message ''User not found'')) 404"
proof -
  have h: "query_get_arg uid (users demo_db) (Some ''leia'') = None" by (simp add: eval_defs)
  show ?thesis using h get_user_favorites_unknown_user [OF h] by blast
qed

lemma handle_fault_iff_witness:
  "\<exists>e. fst (handle demo_db (DeleteFavoritePlanet 1 (Some ''7''))) = Inl e"
proof -
  have "query_get_arg uid (users demo_db) (Some ''7'') = None" by (simp add: eval_defs)
  then show ?thesis using handle_fault_iff [of demo_db "DeleteFavoritePlanet 1 (Some ''7'')"] by blast
qed

lemma get_person_stored_witness:
  "distinct (map cid (characters demo_db)) \<and> leia \<in> set (characters demo_db) \<and>
   distinct (map pid (planets demo_db)) \<and> hoth \<in> set (planets demo_db) \<and>
   get_person demo_db 1 =
     jsonify (JObj [(''name'', JStr ''Leia Organa''), (''species'', JStr ''Human''),
                    (''homeworld'', JStr ''Alderaan''), (''affiliation'', JStr ''Rebel Alliance'')]) \<and>
   get_planet demo_db 2 =
     jsonify (JObj [(''name'', JStr ''Hoth''), (''climate'', JStr ''frozen''),
                    (''terrain'', JStr ''tundra''), (''population'', JNull)])"
proof -
  have h1: "distinct (map cid (characters demo_db))" by (simp add: eval_defs)
  have h2: "leia \<in> set (characters demo_db)" by (simp add: demo_db_def)
  have h3: "distinct (map pid (planets demo_db))" by (simp add: eval_defs)
  have h4: "hoth \<in> set (planets demo_db)" by (simp add: demo_db_def)
  show ?thesis using h1 h2 h3 h4 get_person_stored [OF h1 h2 h3 h4]
    by (simp add: demo_defs json_str_opt_def json_int_opt_def)
qed

lemma get_person_absent_witness:
  "999 \<notin> cid ` set (characters demo_db) \<and> 3 \<notin> pid ` set (planets demo_db) \<and>
   get_person demo_db 999 = with_status (jsonify (message ''Character not found'')) 404 \<and>
   get_planet demo_db 3 = with_status (jsonify (message ''Planet not found'')) 404"
proof -
  have h1: "999 \<notin> cid ` set (characters demo_db)" by (simp add: eval_defs)
  have h2: "3 \<notin> pid ` set (planets demo_db)" by (simp add: eval_defs)
  show ?thesis using h1 h2 get_person_absent [OF h1 h2] by blast
qed

lemma add_planet_then_listed_witness:
  "query_get_arg uid (users demo_db) (Some ''1'') = Some luke \<and>
   query_get pid (planets demo_db) 2 = Some hoth \<and>
   get_user_favorites (snd (add_favorite_planet demo_db 2 (Some ''1''))) (Some ''1'') =
     jsonify (JArr (fav_entries demo_db (user_favorites demo_db luke) @ [JObj [(''planet'', JStr (pname hoth))]]))"
proof -
  have h1: "query_get_arg uid (users demo_db) (Some ''1'') = Some luke" by (simp add: eval_defs)
  have h2: "query_get pid (planets demo_db) 2 = Some hoth" by (simp add: eval_defs)
  show ?thesis using h1 h2 add_planet_then_listed [OF h1 h2] by blast
qed

lemma add_planet_twice_duplicates_witness:
  "query_get_arg uid (users demo_db) (Some ''1'') = Some luke \<and>
   query_get pid (planets demo_db) 2 = Some hoth \<and>
   count (fav_abs (snd (add_favorite_planet (snd (add_favorite_planet demo_db 2 (Some ''1''))) 2 (Some ''1''))))
     (uid luke, Some 2, None) = count (fav_abs demo_db) (uid luke, Some 2, None) + 2"
proof -
  have h1: "query_get_arg uid (users demo_db) (Some ''1'') = Some luke" by (simp add: eval_defs)
  have h2: "query_get pid (planets demo_db) 2 = Some hoth" by (simp add: eval_defs)
  show ?thesis using h1 h2 add_planet_twice_duplicates [OF h1 h2] by blast
qed

lemma delete_planet_twice_not_found_witness:
  "query_get_arg uid (users (demo_db\<lparr>favorites := [fav1, fav2]\<rparr>)) (Some ''1'') = Some luke \<and>
   filter (\<lambda>f. user_id f = uid luke \<and> planet_id f = Some 1) (favorites (demo_db\<lparr>favorites := [fav1, fav2]\<rparr>)) = [fav1] \<and>
   fst (delete_favorite_planet (snd (delete_favorite_planet (demo_db\<lparr>favorites := [fav1, fav2]\<rparr>) 1 (Some ''1''))) 1 (Some ''1'')) =
     Inr (with_status (jsonify (message ''User or Favorite not found'')) 404)"
proof -
  have h1: "query_get_arg uid (users (demo_db\<lparr>favorites := [fav1, fav2]\<rparr>)) (Some ''1'') = Some luke"
    by (simp add: eval_defs)
  have h2: "filter (\<lambda>f. user_id f = uid luke \<and> planet_id f = Some 1) (favorites (demo_db\<lparr>favorites := [fav1, fav2]\<rparr>)) = [fav1]"
    by (simp add: eval_defs)
  show ?thesis using h1 h2 delete_planet_twice_not_found [OF h1 h2] by blast
qed

lemma add_then_delete_roundtrip_witness:
  "query_get_arg uid (users (demo_db\<lparr>favorites := [fav1]\<rparr>)) (Some ''1'') = Some luke \<and>
   query_get pid (planets (demo_db\<lparr>favorites := [fav1]\<rparr>)) 2 = Some hoth \<and>
   query_get cid (characters (demo_db\<lparr>favorites := [fav1]\<rparr>)) 1 = Some leia \<and>
   delete_favorite_planet (snd (add_favorite_planet (demo_db\<lparr>favorites := [fav1]\<rparr>) 2 (Some ''1''))) 2 (Some ''1'') =
     (Inr (jsonify (message ''Favorite planet deleted successfully'')), demo_db\<lparr>favorites := [fav1]\<rparr>) \<and>
   delete_favorite_people (snd (add_favorite_people (demo_db\<lparr>favorites := [fav1]\<rparr>) 1 (Some ''1''))) 1 (Some ''1'') =
     (Inr (jsonify (message ''Favorite character deleted successfully'')), demo_db\<lparr>favorites := [fav1]\<rparr>)"
proof -
  have h1: "query_get_arg uid (users (demo_db\<lparr>favorites := [fav1]\<rparr>)) (Some ''1'') = Some luke"
    by (simp add: eval_defs)
  have h2: "query_get pid (planets (demo_db\<lparr>favorites := [fav1]\<rparr>)) 2 = Some hoth" by (simp add: eval_defs)
  have h3: "\<forall>f \<in> set (favorites (demo_db\<lparr>favorites := [fav1]\<rparr>)). \<not> (user_id f = uid luke \<and> planet_id f = Some 2)"
    by (simp add: eval_defs)
  have h4: "query_get cid (characters (demo_db\<lparr>favorites := [fav1]\<rparr>)) 1 = Some leia" by (simp add: eval_defs)
  have h5: "\<forall>f \<in> set (favorites (demo_db\<lparr>favorites := [fav1]\<rparr>)). \<not> (user_id f = uid luke \<and> character_id f = Some 1)"
    by (simp add: eval_defs)
  show ?thesis using h1 h2 h4 add_then_delete_roundtrip [OF h1 h2 h3 h4 h5] by blast
qed

lemma run_next_rowid_bound_witness:
  "list_all (\<lambda>f. 0 < fid f) (favorites demo_db) \<and>
   next_rowid fid (favorites (snd (run demo_db adds_demo))) \<le> next_rowid fid (favorites demo_db) + 2"
proof -
  have h: "\<forall>f \<in> set (favorites demo_db). 0 < fid f" by (simp add: eval_defs)
  have "length adds_demo = 2" by (simp add: adds_demo_def)
  then show ?thesis using h run_next_rowid_bound [OF h, of adds_demo] by (simp add: list_all_iff)
qed

lemma database_uri_postgres_scheme_witness:
  "database_uri (Some ''postgres://luke:x@db.example:5432/starwars'') =
   ''postgresql://luke:x@db.example:5432/starwars''"
proof -
  have h: "\<not> occurs_in ''postgres://'' ''luke:x@db.example:5432/starwars''" by simp
  show ?thesis using database_uri_postgres_scheme [OF h] by simp
qed


lemma conc_favorites_inv_witness:
  "conc_step\<^sup>*\<^sup>* (demo_db, map Idle [PostFavoritePlanet 2 (Some ''1'')])
     (step_thread 0 (demo_db, map Idle [PostFavoritePlanet 2 (Some ''1'')])) \<and>
   favorites_inv demo_db \<and>
   favorites_inv (fst (step_thread 0 (demo_db, map Idle [PostFavoritePlanet 2 (Some ''1'')])))"
proof -
  have h1: "conc_step\<^sup>*\<^sup>* (demo_db, map Idle [PostFavoritePlanet 2 (Some ''1'')])
     (step_thread 0 (demo_db, map Idle [PostFavoritePlanet 2 (Some ''1'')]))"
    by (rule r_into_rtranclp, rule conc_step_at) simp_all
  have h2: "favorites_inv demo_db" by (simp add: eval_defs)
  show ?thesis using h1 h2 conc_favorites_inv [OF h1 h2] by blast
qed

lemma concurrent_deletes_both_succeed_witness:
  "query_get_arg uid (users (demo_db\<lparr>favorites := [fav1, fav2]\<rparr>)) (Some ''1'') = Some luke \<and>
   filter (\<lambda>g. user_id g = uid luke \<and> planet_id g = Some 1) (favorites (demo_db\<lparr>favorites := [fav1, fav2]\<rparr>)) = [fav1] \<and>
   conc_step\<^sup>*\<^sup>* (demo_db\<lparr>favorites := [fav1, fav2]\<rparr>,
       [Idle (DeleteFavoritePlanet 1 (Some ''1'')), Idle (DeleteFavoritePlanet 1 (Some ''1''))])
     (demo_db\<lparr>favorites := [fav2]\<rparr>,
      [Finished (Inr (jsonify (message ''Favorite planet deleted successfully''))),
       Finished (Inr (jsonify (message ''Favorite planet deleted successfully'')))])"
proof -
  let ?d = "demo_db\<lparr>favorites := [fav1, fav2]\<rparr>"
  have h1: "query_get_arg uid (users ?d) (Some ''1'') = Some luke" by (simp add: eval_defs)
  have h2: "filter (\<lambda>g. user_id g = uid luke \<and> planet_id g = Some 1) (favorites ?d) = [fav1]"
    by (simp add: eval_defs)
  have e: "?d\<lparr>favorites := delete_row fid fav1 (favorites ?d)\<rparr> = demo_db\<lparr>favorites := [fav2]\<rparr>"
    by (simp add: eval_defs delete_row_def)
  show ?thesis using h1 h2 concurrent_deletes_both_succeed [OF h1 h2] e by simp
qed

lemma concurrent_adds_serializable_witness:
  "conc_step\<^sup>*\<^sup>* (demo_db, map Idle adds_demo)
     (step_thread 1 (step_thread 0 (step_thread 1 (step_thread 0 (demo_db, map Idle adds_demo))))) \<and>
   all_finished (step_thread 1 (step_thread 0 (step_thread 1 (step_thread 0 (demo_db, map Idle adds_demo))))) \<and>
   fav_abs (fst (step_thread 1 (step_thread 0 (step_thread 1 (step_thread 0 (demo_db, map Idle adds_demo)))))) =
   abs_run demo_db adds_demo (fav_abs demo_db)"
proof -
  let ?s0 = "(demo_db, map Idle adds_demo)"
  let ?s1 = "step_thread 0 ?s0"
  let ?s2 = "step_thread 1 ?s1"
  let ?s3 = "step_thread 0 ?s2"
  let ?s4 = "step_thread 1 ?s3"
  note defs = eval_defs adds_demo_def step_thread_def start_thread_def prepare_def commit_pending_def
  have h1: "\<forall>r \<in> set adds_demo. \<not> is_delete r" by (simp add: adds_demo_def)
  have "conc_step ?s0 ?s1" by (rule conc_step_at) (simp_all add: defs)
  moreover have "conc_step ?s1 ?s2" by (rule conc_step_at) (simp_all add: defs)
  moreover have "conc_step ?s2 ?s3" by (rule conc_step_at) (simp_all add: defs)
  moreover have "conc_step ?s3 ?s4" by (rule conc_step_at) (simp_all add: defs)
  ultimately have h2: "conc_step\<^sup>*\<^sup>* ?s0 ?s4"
    by (meson converse_rtranclp_into_rtranclp rtranclp.rtrancl_refl)
  have h3: "all_finished ?s4" by (simp add: defs all_finished_def)
  show ?thesis using h2 h3 concurrent_adds_serializable [OF h1 h2 h3] by blast
qed

lemma delete_planet_one_fewer_witness:
  "wf_db demo_db \<and> query_get_arg uid (users demo_db) (Some ''1'') = Some luke \<and>
   length (filter (\<lambda>f. user_id f = uid luke \<and> planet_id f = Some 1)
     (favorites (snd (delete_favorite_planet demo_db 1 (Some ''1''))))) = 1"
proof -
  have h1: "wf_db demo_db" by (simp add: eval_defs)
  have h2: "query_get_arg uid (users demo_db) (Some ''1'') = Some luke" by (simp add: eval_defs)
  have h3: "fst (delete_favorite_planet demo_db 1 (Some ''1'')) =
      Inr (jsonify (message ''Favorite planet deleted successfully''))"
    by (simp add: eval_defs delete_favorite_planet_def filter_by_first_def)
  have n: "length (filter (\<lambda>f. user_id f = uid luke \<and> planet_id f = Some 1) (favorites demo_db)) = 2"
    by (simp add: eval_defs)
  show ?thesis using h1 h2 delete_planet_one_fewer [OF h1 h2 h3] n by simp
qed

end
